theory Spec2Isabelle
  imports Complex_Main "HOL-Library.Log_Nat"
begin

section \<open>Values\<close>

text \<open>
  Errors that the services raise or let through. \<open>TransportError\<close> is a failed round trip
  to the key-value store, \<open>ReplyError\<close> a command the store rejects, \<open>TypeError\<close> a
  property read on \<open>null\<close>/\<open>undefined\<close>, \<open>SyntaxError\<close> what \<open>JSON.parse\<close> throws,
  \<open>ValidationError\<close> a document the schema refuses, \<open>PersistenceError\<close> a rejected
  database operation; \<open>Conflict\<close> and \<open>ServiceUnavailable\<close> are the two exceptions the
  transaction service throws itself.
\<close>

datatype error =
    TransportError
  | ReplyError
  | TypeError
  | SyntaxError
  | ValidationError
  | PersistenceError
  | Conflict
  | ServiceUnavailable

text \<open>
  A JavaScript \<open>number\<close> is an IEEE-754 double. A finite value is held as the real it
  denotes; the two infinities and \<open>NaN\<close> are values of their own. The sign of a zero is
  not kept: both zeros are falsy, and no operation of the services divides by a zero that
  was computed.
\<close>

datatype jsnum = Num real | PInf | NInf | NaN

text \<open>
  \<open>round64\<close> rounds an exact result to the nearest double, ties to the even mantissa,
  with gradual underflow (the exponent is at least -1022) and overflow to an infinity:
  \<open>ilog2 a\<close> is the exponent of \<open>a > 0\<close>, the integer part of its binary logarithm; the
  unit in the last place is 2 to the power of that exponent minus 52, and the magnitude
  is rounded to a whole number \<open>n\<close> of units. The result overflows when the exponent is
  1024 or more, or when it is 1023 and \<open>n\<close> was rounded up to \<open>2 ^ 53\<close>.
\<close>

definition pow2 :: "int \<Rightarrow> real" where
  "pow2 e = (if 0 \<le> e then 2 ^ nat e else 1 / 2 ^ nat (- e))"

definition ilog2 :: "real \<Rightarrow> int" where
  "ilog2 a = (if 1 \<le> a then bitlen \<lfloor>a\<rfloor> - 1 else - bitlen (\<lceil>1 / a\<rceil> - 1))"

definition roundHalfEven :: "real \<Rightarrow> int" where
  "roundHalfEven q =
     (let f = \<lfloor>q\<rfloor>;
          d = q - of_int f in
      if d < 1 / 2 then f
      else if 1 / 2 < d then f + 1
      else if even f then f
      else f + 1)"

definition round64 :: "real \<Rightarrow> jsnum" where
  "round64 x =
     (if x = 0 then Num 0
      else if 1024 \<le> ilog2 \<bar>x\<bar> then (if x < 0 then NInf else PInf)
      else
        (let a = \<bar>x\<bar>;
             e = max (ilog2 a) (- 1022);
             ulp = pow2 (e - 52);
             n = roundHalfEven (a / ulp) in
         if e = 1023 \<and> 9007199254740992 \<le> n then (if x < 0 then NInf else PInf)
         else Num (if x < 0 then - (of_int n * ulp) else of_int n * ulp)))"

text \<open>
  The operators \<open>/\<close>, \<open>*\<close> and \<open>+\<close>: the exact operation on finite operands, rounded;
  the cases of a zero divisor, of an infinite operand and of \<open>NaN\<close> as the standard has
  them.
\<close>

fun jsDiv :: "jsnum \<Rightarrow> jsnum \<Rightarrow> jsnum" where
  "jsDiv (Num a) (Num b) =
     (if b = 0 then (if a = 0 then NaN else if 0 < a then PInf else NInf)
      else round64 (a / b))"
| "jsDiv (Num a) PInf = Num 0"
| "jsDiv (Num a) NInf = Num 0"
| "jsDiv PInf (Num b) = (if b < 0 then NInf else PInf)"
| "jsDiv NInf (Num b) = (if b < 0 then PInf else NInf)"
| "jsDiv x y = NaN"

fun jsMul :: "jsnum \<Rightarrow> jsnum \<Rightarrow> jsnum" where
  "jsMul (Num a) (Num b) = round64 (a * b)"
| "jsMul (Num a) PInf = (if a = 0 then NaN else if 0 < a then PInf else NInf)"
| "jsMul (Num a) NInf = (if a = 0 then NaN else if 0 < a then NInf else PInf)"
| "jsMul PInf (Num b) = (if b = 0 then NaN else if 0 < b then PInf else NInf)"
| "jsMul NInf (Num b) = (if b = 0 then NaN else if 0 < b then NInf else PInf)"
| "jsMul PInf PInf = PInf"
| "jsMul NInf NInf = PInf"
| "jsMul PInf NInf = NInf"
| "jsMul NInf PInf = NInf"
| "jsMul x y = NaN"

fun jsAdd :: "jsnum \<Rightarrow> jsnum \<Rightarrow> jsnum" where
  "jsAdd (Num a) (Num b) = round64 (a + b)"
| "jsAdd (Num a) PInf = PInf"
| "jsAdd (Num a) NInf = NInf"
| "jsAdd PInf (Num b) = PInf"
| "jsAdd NInf (Num b) = NInf"
| "jsAdd PInf PInf = PInf"
| "jsAdd NInf NInf = NInf"
| "jsAdd x y = NaN"

text \<open>
  The values that travel through the cache: \<open>null\<close>, booleans, numbers, strings, and
  objects whose fields are numbers (the shape of the rate table). A number of a JSON
  document is finite.
\<close>

datatype json =
    JNull
  | JBool bool
  | JNum real
  | JStr string
  | JObj "(string \<times> real) list"

text \<open>JavaScript truthiness, as \<open>if (value)\<close> and \<open>!result\<close> test it.\<close>

fun truthy :: "json \<Rightarrow> bool" where
  "truthy JNull = False"
| "truthy (JBool b) = b"
| "truthy (JNum n) = (n \<noteq> 0)"
| "truthy (JStr s) = (s \<noteq> [])"
| "truthy (JObj _) = True"

section \<open>The key-value store\<close>

text \<open>
  The commands the services send. \<open>EVAL_RELEASE k t\<close> is the check-and-delete script of
  \<open>releaseLock\<close> with \<open>KEYS[1] = k\<close> and \<open>ARGV[1] = t\<close>.
\<close>

datatype command =
    SET_PX_NX string string nat
  | SET_EX string string nat
  | SET_PLAIN string string
  | GET string
  | EVAL_RELEASE string string
  | EXISTS string

text \<open>
  The store as one client sees it: \<open>entries\<close> maps a key to its value and its absolute
  expiry time in milliseconds (\<open>None\<close>: no expiry); \<open>now\<close> is the clock, which only a
  timer (\<open>sleep\<close>) advances, commands taking no time; \<open>faults\<close> is the transport oracle,
  one flag per command still to come (\<open>True\<close>: that command fails in transport and has no
  effect; an exhausted list means no further failure); \<open>sent\<close> is the log of the commands
  issued so far.
\<close>

record redis =
  entries :: "string \<rightharpoonup> (string \<times> int option)"
  now :: int
  faults :: "bool list"
  sent :: "command list"

definition live :: "redis \<Rightarrow> string \<Rightarrow> string option" where
  "live r k =
     (case entries r k of
        None \<Rightarrow> None
      | Some (v, None) \<Rightarrow> Some v
      | Some (v, Some t) \<Rightarrow> if now r < t then Some v else None)"

definition send :: "command \<Rightarrow> redis \<Rightarrow> bool \<times> redis" where
  "send c r =
     (case faults r of
        [] \<Rightarrow> (False, r\<lparr>sent := sent r @ [c]\<rparr>)
      | f # fs \<Rightarrow> (f, r\<lparr>faults := fs, sent := sent r @ [c]\<rparr>))"

definition reachable :: "redis \<Rightarrow> bool" where
  "reachable r = (case faults r of [] \<Rightarrow> True | f # fs \<Rightarrow> \<not> f)"

definition sleep :: "nat \<Rightarrow> redis \<Rightarrow> redis" where
  "sleep ms r = r\<lparr>now := now r + int ms\<rparr>"

text \<open>
  \<open>SET key value PX ttl NX\<close>: \<open>Inr True\<close> is the reply \<open>OK\<close>, \<open>Inr False\<close> the nil
  reply when the key is present. The store rejects a zero expiry.
\<close>

definition redis_set_px_nx ::
  "string \<Rightarrow> string \<Rightarrow> nat \<Rightarrow> redis \<Rightarrow> (error + bool) \<times> redis" where
  "redis_set_px_nx k v ttl r =
     (let (failed, r') = send (SET_PX_NX k v ttl) r in
      if failed then (Inl TransportError, r')
      else if ttl = 0 then (Inl ReplyError, r')
      else (case live r' k of
              Some old \<Rightarrow> (Inr False, r')
            | None \<Rightarrow>
                (Inr True, r'\<lparr>entries := (entries r')(k \<mapsto> (v, Some (now r' + int ttl)))\<rparr>)))"

text \<open>\<open>SET key value EX seconds\<close> and \<open>SET key value\<close>.\<close>

definition redis_set_ex ::
  "string \<Rightarrow> string \<Rightarrow> nat \<Rightarrow> redis \<Rightarrow> (error + unit) \<times> redis" where
  "redis_set_ex k v secs r =
     (let (failed, r') = send (SET_EX k v secs) r in
      if failed then (Inl TransportError, r')
      else if secs = 0 then (Inl ReplyError, r')
      else (Inr (), r'\<lparr>entries := (entries r')(k \<mapsto> (v, Some (now r' + 1000 * int secs)))\<rparr>))"

definition redis_set_plain ::
  "string \<Rightarrow> string \<Rightarrow> redis \<Rightarrow> (error + unit) \<times> redis" where
  "redis_set_plain k v r =
     (let (failed, r') = send (SET_PLAIN k v) r in
      if failed then (Inl TransportError, r')
      else (Inr (), r'\<lparr>entries := (entries r')(k \<mapsto> (v, None))\<rparr>))"

definition redis_get :: "string \<Rightarrow> redis \<Rightarrow> (error + string option) \<times> redis" where
  "redis_get k r =
     (let (failed, r') = send (GET k) r in
      if failed then (Inl TransportError, r') else (Inr (live r' k), r'))"

text \<open>
  The script of \<open>releaseLock\<close>:
  \<^verbatim>\<open>if redis.call('get', KEYS[1]) == ARGV[1] then return redis.call('del', KEYS[1]) else return 0 end\<close>
  run as one command. The reply is the number of keys deleted.
\<close>

definition redis_eval_release ::
  "string \<Rightarrow> string \<Rightarrow> redis \<Rightarrow> (error + nat) \<times> redis" where
  "redis_eval_release k token r =
     (let (failed, r') = send (EVAL_RELEASE k token) r in
      if failed then (Inl TransportError, r')
      else if live r' k = Some token
           then (Inr 1, r'\<lparr>entries := (entries r')(k := None)\<rparr>)
           else (Inr 0, r'))"

definition redis_exists :: "string \<Rightarrow> redis \<Rightarrow> (error + nat) \<times> redis" where
  "redis_exists k r =
     (let (failed, r') = send (EXISTS k) r in
      if failed then (Inl TransportError, r')
      else (Inr (case live r' k of None \<Rightarrow> 0 | Some v \<Rightarrow> 1), r'))"

section \<open>Constants (cache.key.ts)\<close>

definition REDIX_PREFIX :: string where
  "REDIX_PREFIX = ''kirana-register:''"

definition CURRENCY_RATES_key :: string where
  "CURRENCY_RATES_key = REDIX_PREFIX @ ''currency-rates''"

definition CURRENCY_RATES_expiry :: nat where
  "CURRENCY_RATES_expiry = 3600"

definition LOCK_key :: "string \<Rightarrow> string" where
  "LOCK_key key = REDIX_PREFIX @ ''lock:'' @ key"

definition LOCK_expiry :: nat where
  "LOCK_expiry = 10000"

section \<open>DistributedLockService\<close>

definition DEFAULT_RETRY_COUNT :: nat where
  "DEFAULT_RETRY_COUNT = 3"

definition DEFAULT_RETRY_DELAY :: nat where
  "DEFAULT_RETRY_DELAY = 200"

text \<open>
  The \<open>while (attempts < retryCount)\<close> loop of \<open>acquireLock\<close>. A transport or reply
  error is logged and rethrown; a nil reply is followed by the timer and \<open>attempts++\<close>.
\<close>

function acquireLock_loop ::
  "string \<Rightarrow> string \<Rightarrow> nat \<Rightarrow> nat \<Rightarrow> nat \<Rightarrow> redis \<Rightarrow> (error + string option) \<times> redis" where
  "acquireLock_loop lockKey lockValue ttl retryCount attempts r =
     (if attempts < retryCount then
        (let (acquired, r') = redis_set_px_nx lockKey lockValue ttl r in
         case acquired of
           Inl e \<Rightarrow> (Inl e, r')
         | Inr ok \<Rightarrow>
             if ok then (Inr (Some lockValue), r')
             else acquireLock_loop lockKey lockValue ttl retryCount (Suc attempts)
                    (sleep DEFAULT_RETRY_DELAY r'))
      else (Inr None, r))"
  by pat_completeness auto
termination
  by (relation "measure (\<lambda>(lockKey, lockValue, ttl, retryCount, attempts, r). retryCount - attempts)")
     auto

text \<open>
  \<open>acquireLock(key, ttl = LOCK.expiry, retryCount = DEFAULT_RETRY_COUNT)\<close>. The token
  \<open>randomUUID()\<close> is drawn once, before the loop; it is the argument \<open>lockValue\<close>.
  \<open>None\<close> is the \<open>null\<close> result.
\<close>

definition acquireLock ::
  "string \<Rightarrow> string \<Rightarrow> nat \<Rightarrow> nat \<Rightarrow> redis \<Rightarrow> (error + string option) \<times> redis" where
  "acquireLock key lockValue ttl retryCount r =
     acquireLock_loop (LOCK_key key) lockValue ttl retryCount 0 r"

definition releaseLock :: "string \<Rightarrow> string \<Rightarrow> redis \<Rightarrow> (error + bool) \<times> redis" where
  "releaseLock key lockValue r =
     (let (result, r') = redis_eval_release (LOCK_key key) lockValue r in
      case result of
        Inl e \<Rightarrow> (Inl e, r')
      | Inr n \<Rightarrow> (Inr (n = 1), r'))"

definition isLocked :: "string \<Rightarrow> redis \<Rightarrow> (error + bool) \<times> redis" where
  "isLocked key r =
     (let (result, r') = redis_exists (LOCK_key key) r in
      case result of
        Inl e \<Rightarrow> (Inl e, r')
      | Inr n \<Rightarrow> (Inr (n = 1), r'))"

section \<open>CacheService\<close>

text \<open>
  \<open>JSON.parse\<close> and \<open>JSON.stringify\<close> are parameters of the model: \<open>parse\<close> gives
  \<open>None\<close> where \<open>JSON.parse\<close> throws. The \<open>try\<close> block of \<open>get\<close> and its
  \<open>catch\<close>, which logs and returns \<open>null\<close>, are kept apart.
\<close>

definition cache_get_try ::
  "(string \<Rightarrow> json option) \<Rightarrow> string \<Rightarrow> redis \<Rightarrow> (error + json) \<times> redis" where
  "cache_get_try parse key r =
     (let (reply, r') = redis_get key r in
      case reply of
        Inl e \<Rightarrow> (Inl e, r')
      | Inr None \<Rightarrow> (Inr JNull, r')
      | Inr (Some value) \<Rightarrow>
          if value = [] then (Inr JNull, r')
          else (case parse value of
                  None \<Rightarrow> (Inl SyntaxError, r')
                | Some v \<Rightarrow> (Inr v, r')))"

definition cache_get ::
  "(string \<Rightarrow> json option) \<Rightarrow> string \<Rightarrow> redis \<Rightarrow> (error + json) \<times> redis" where
  "cache_get parse key r =
     (let (res, r') = cache_get_try parse key r in
      case res of
        Inl e \<Rightarrow> (Inr JNull, r')
      | Inr v \<Rightarrow> (Inr v, r'))"

text \<open>
  \<open>set(key, value, expiry?)\<close>: \<open>if (expiry)\<close> is false for a missing and for a zero
  expiry. The \<open>catch\<close> logs and returns.
\<close>

definition cache_set_try ::
  "(json \<Rightarrow> string) \<Rightarrow> string \<Rightarrow> json \<Rightarrow> nat option \<Rightarrow> redis \<Rightarrow> (error + unit) \<times> redis" where
  "cache_set_try stringify key v expiry r =
     (case expiry of
        None \<Rightarrow> redis_set_plain key (stringify v) r
      | Some secs \<Rightarrow>
          if secs \<noteq> 0 then redis_set_ex key (stringify v) secs r
          else redis_set_plain key (stringify v) r)"

definition cache_set ::
  "(json \<Rightarrow> string) \<Rightarrow> string \<Rightarrow> json \<Rightarrow> nat option \<Rightarrow> redis \<Rightarrow> (error + unit) \<times> redis" where
  "cache_set stringify key v expiry r =
     (let (res, r') = cache_set_try stringify key v expiry r in
      case res of
        Inl e \<Rightarrow> (Inr (), r')
      | Inr u \<Rightarrow> (Inr (), r'))"

text \<open>
  \<open>cached(key, expiry, func)\<close>. The producer \<open>func\<close> acts on a world \<open>'w\<close> of its own
  and either throws or returns a value; the state is the store paired with that world.
\<close>

definition cached ::
  "(string \<Rightarrow> json option) \<Rightarrow> (json \<Rightarrow> string) \<Rightarrow> string \<Rightarrow> nat \<Rightarrow>
   ('w \<Rightarrow> (error + json) \<times> 'w) \<Rightarrow> redis \<times> 'w \<Rightarrow> (error + json) \<times> (redis \<times> 'w)" where
  "cached parse stringify key expiry func st =
     (let (r, w) = st;
          (got, r1) = cache_get parse key r in
      case got of
        Inl e \<Rightarrow> (Inl e, (r1, w))
      | Inr v \<Rightarrow>
          if truthy v then (Inr v, (r1, w))
          else
            (let (produced, w1) = func w in
             case produced of
               Inl e \<Rightarrow> (Inl e, (r1, w1))
             | Inr result \<Rightarrow>
                 if \<not> truthy result then (Inr JNull, (r1, w1))
                 else
                   (let (stored, r2) = cache_set stringify key result (Some expiry) r1 in
                    case stored of
                      Inl e \<Rightarrow> (Inl e, (r2, w1))
                    | Inr u \<Rightarrow> (Inr result, (r2, w1)))))"

section \<open>The rate provider\<close>

text \<open>
  The external exchange-rate service: \<open>replies\<close> holds the outcome of each call still to
  come (an exhausted list: the call fails), \<open>calls\<close> counts the calls made. \<open>FxRates v\<close>
  is a response whose \<open>data.rates\<close> is \<open>v\<close>, with \<open>JNull\<close> for a response that has no
  such field; \<open>FxFailure\<close> is anything that makes the \<open>try\<close> block throw.
\<close>

datatype fxreply = FxFailure | FxRates json

record provider =
  replies :: "fxreply list"
  calls :: nat

definition axios_get :: "provider \<Rightarrow> (error + json) \<times> provider" where
  "axios_get p =
     (case replies p of
        [] \<Rightarrow> (Inl TransportError, p\<lparr>calls := Suc (calls p)\<rparr>)
      | FxFailure # rs \<Rightarrow> (Inl TransportError, p\<lparr>replies := rs, calls := Suc (calls p)\<rparr>)
      | FxRates v # rs \<Rightarrow> (Inr v, p\<lparr>replies := rs, calls := Suc (calls p)\<rparr>))"

section \<open>TransactionService: currency conversion\<close>

text \<open>The producer handed to \<open>cached\<close> by \<open>getCurrencyRates\<close>.\<close>

definition fetchRates :: "provider \<Rightarrow> (error + json) \<times> provider" where
  "fetchRates p =
     (let (response, p') = axios_get p in
      case response of
        Inl e \<Rightarrow> (Inl ServiceUnavailable, p')
      | Inr rates \<Rightarrow> (Inr rates, p'))"

definition getCurrencyRates ::
  "(string \<Rightarrow> json option) \<Rightarrow> (json \<Rightarrow> string) \<Rightarrow> redis \<times> provider \<Rightarrow>
   (error + json) \<times> (redis \<times> provider)" where
  "getCurrencyRates parse stringify st =
     cached parse stringify CURRENCY_RATES_key CURRENCY_RATES_expiry fetchRates st"

text \<open>
  Modelled from the spec: the enum \<open>Currency\<close> is not among the sources. A currency is its
  code, and the reference currency \<open>Currency.INR\<close> is the code \<open>INR\<close>, the field that
  \<open>convertToINR\<close> reads from the rate table.
\<close>

type_synonym Currency = string

definition Currency_INR :: Currency where
  "Currency_INR = ''INR''"

text \<open>
  Reading a property: a \<open>TypeError\<close> on \<open>null\<close>, \<open>undefined\<close> (here \<open>None\<close>) on a
  value that has no such field. \<open>toNumber\<close> is the coercion of an operand of \<open>/\<close> and
  \<open>*\<close>: \<open>undefined\<close> becomes \<open>NaN\<close>.
\<close>

fun getProp :: "json \<Rightarrow> string \<Rightarrow> error + real option" where
  "getProp JNull k = Inl TypeError"
| "getProp (JObj kvs) k = Inr (map_of kvs k)"
| "getProp v k = Inr None"

fun toNumber :: "real option \<Rightarrow> jsnum" where
  "toNumber None = NaN"
| "toNumber (Some x) = Num x"

definition convertToINR ::
  "(string \<Rightarrow> json option) \<Rightarrow> (json \<Rightarrow> string) \<Rightarrow> real \<Rightarrow> Currency \<Rightarrow> redis \<times> provider \<Rightarrow>
   (error + jsnum) \<times> (redis \<times> provider)" where
  "convertToINR parse stringify amt cur st =
     (if cur = Currency_INR then (Inr (Num amt), st)
      else
        (let (res, st') = getCurrencyRates parse stringify st in
         case res of
           Inl e \<Rightarrow> (Inl e, st')
         | Inr rates \<Rightarrow>
             (case getProp rates ''INR'' of
                Inl e \<Rightarrow> (Inl e, st')
              | Inr inrRate \<Rightarrow>
                  (case getProp rates cur of
                     Inl e \<Rightarrow> (Inl e, st')
                   | Inr currencyRate \<Rightarrow>
                       (Inr (jsMul (jsDiv (Num amt) (toNumber currencyRate)) (toNumber inrRate)),
                        st')))))"

section \<open>Transactions and their repository\<close>

text \<open>
  Modelled from the spec: the enum \<open>TransactionType\<close> is not among the sources; a
  transaction is a credit or a debit.
\<close>

datatype TransactionType = CREDIT | DEBIT

text \<open>
  A stored transaction (the fields of the schema but \<open>_id\<close>); \<open>createdAt\<close> is a time
  value, milliseconds since the epoch.
\<close>

record transaction =
  storeId :: string
  amount :: real
  description :: "string option"
  txType :: TransactionType
  currency :: Currency
  amountInINR :: jsnum
  createdBy :: string
  createdAt :: int

record CreateTransactionDto =
  dto_amount :: real
  dto_description :: "string option"
  dto_type :: TransactionType
  dto_currency :: Currency

record user =
  user_id :: string
  user_storeId :: "string option"

text \<open>
  The collection: \<open>docs\<close> are the stored documents, \<open>inflight\<close> the inserts that were
  issued and whose promise is not settled yet, \<open>mfaults\<close> the failure oracle, one flag
  per database operation still to come (\<open>True\<close>: the operation is rejected and changes
  nothing).
\<close>

record mongo =
  docs :: "transaction list"
  inflight :: "transaction list"
  mfaults :: "bool list"

definition db_call :: "mongo \<Rightarrow> bool \<times> mongo" where
  "db_call m = (case mfaults m of [] \<Rightarrow> (False, m) | f # fs \<Rightarrow> (f, m\<lparr>mfaults := fs\<rparr>))"

text \<open>
  \<open>create(item)\<close> returns a promise at once: the insert is issued and pending.
  \<open>settle_create\<close> is what awaiting that promise gives: the schema refuses a document
  whose number is \<open>NaN\<close>; otherwise the database stores the document or rejects the
  operation.
\<close>

definition repository_create :: "transaction \<Rightarrow> mongo \<Rightarrow> mongo" where
  "repository_create item m = m\<lparr>inflight := inflight m @ [item]\<rparr>"

definition settle_create :: "transaction \<Rightarrow> mongo \<Rightarrow> (error + transaction) \<times> mongo" where
  "settle_create item m =
     (if amountInINR item = NaN
      then (Inl ValidationError, m\<lparr>inflight := remove1 item (inflight m)\<rparr>)
      else
        (let (failed, m') = db_call m in
         if failed then (Inl PersistenceError, m'\<lparr>inflight := remove1 item (inflight m')\<rparr>)
         else (Inr item,
               m'\<lparr>docs := docs m' @ [item], inflight := remove1 item (inflight m')\<rparr>)))"

definition repository_aggregate ::
  "(transaction list \<Rightarrow> 'a) \<Rightarrow> mongo \<Rightarrow> (error + 'a) \<times> mongo" where
  "repository_aggregate pipeline m =
     (let (failed, m') = db_call m in
      if failed then (Inl PersistenceError, m')
      else (Inr (pipeline (docs m')), m'))"

section \<open>TransactionService: createTransaction\<close>

record sys =
  kv :: redis
  fxp :: provider
  db :: mongo

text \<open>
  The \<open>try\<close> block: the conversion is awaited, then \<open>create\<close> is called and its
  promise returned without \<open>await\<close>. A result \<open>Inr item\<close> is that pending promise: the
  insert of \<open>item\<close> is in flight. The \<open>timestamps\<close> option of the schema stamps
  \<open>createdAt\<close> with the clock.
\<close>

definition createTransaction_try ::
  "(string \<Rightarrow> json option) \<Rightarrow> (json \<Rightarrow> string) \<Rightarrow> string \<Rightarrow> user \<Rightarrow> CreateTransactionDto \<Rightarrow>
   sys \<Rightarrow> (error + transaction) \<times> sys" where
  "createTransaction_try parse stringify sid u dto s =
     (let (converted, (r, p)) =
            convertToINR parse stringify (dto_amount dto) (dto_currency dto) (kv s, fxp s);
          s1 = s\<lparr>kv := r, fxp := p\<rparr> in
      case converted of
        Inl e \<Rightarrow> (Inl e, s1)
      | Inr inr \<Rightarrow>
          (let item =
                 \<lparr>storeId = sid, amount = dto_amount dto, description = dto_description dto,
                  txType = dto_type dto, currency = dto_currency dto, amountInINR = inr,
                  createdBy = user_id u, createdAt = now r\<rparr>
           in (Inr item, s1\<lparr>db := repository_create item (db s1)\<rparr>)))"

text \<open>
  \<open>createTransaction(user, dto)\<close>; \<open>lockValue\<close> is the token \<open>acquireLock\<close> draws.
  Reading \<open>user.storeId.toString()\<close> throws for a user without a store, before anything
  else happens. \<open>if (!lockValue)\<close> is true for \<open>null\<close> and for the empty string. The
  \<open>finally\<close> block runs when the \<open>try\<close> block is left, whatever its outcome, and an
  error it throws replaces that outcome (the insert then stays in flight, awaited by no
  one). Only after the \<open>finally\<close> block is the returned promise settled and its outcome
  the outcome of the call.
\<close>

definition createTransaction ::
  "(string \<Rightarrow> json option) \<Rightarrow> (json \<Rightarrow> string) \<Rightarrow> string \<Rightarrow> user \<Rightarrow> CreateTransactionDto \<Rightarrow>
   sys \<Rightarrow> (error + transaction) \<times> sys" where
  "createTransaction parse stringify token u dto s =
     (case user_storeId u of
        None \<Rightarrow> (Inl TypeError, s)
      | Some sid \<Rightarrow>
          (let lockKey = ''transaction:'' @ sid;
               (acquired, r1) = acquireLock lockKey token LOCK_expiry DEFAULT_RETRY_COUNT (kv s);
               s1 = s\<lparr>kv := r1\<rparr> in
           case acquired of
             Inl e \<Rightarrow> (Inl e, s1)
           | Inr None \<Rightarrow> (Inl Conflict, s1)
           | Inr (Some lockValue) \<Rightarrow>
               if lockValue = [] then (Inl Conflict, s1)
               else
                 (let (outcome, s2) = createTransaction_try parse stringify sid u dto s1;
                      (released, r3) = releaseLock lockKey lockValue (kv s2);
                      s3 = s2\<lparr>kv := r3\<rparr> in
                  case released of
                    Inl e \<Rightarrow> (Inl e, s3)
                  | Inr b \<Rightarrow>
                      (case outcome of
                         Inl e \<Rightarrow> (Inl e, s3)
                       | Inr item \<Rightarrow>
                           (let (settled, m) = settle_create item (db s3) in
                            (settled, s3\<lparr>db := m\<rparr>))))))"

section \<open>Dates\<close>


definition msPerDay :: int where
  "msPerDay = 86400000"

definition Day :: "int \<Rightarrow> int" where
  "Day t = t div msPerDay"

definition TimeWithinDay :: "int \<Rightarrow> int" where
  "TimeWithinDay t = t mod msPerDay"

definition DaysInYear :: "int \<Rightarrow> int" where
  "DaysInYear y =
     (if y mod 4 \<noteq> 0 then 365
      else if y mod 100 \<noteq> 0 then 366
      else if y mod 400 \<noteq> 0 then 365
      else 366)"

definition DayFromYear :: "int \<Rightarrow> int" where
  "DayFromYear y =
     365 * (y - 1970) + (y - 1969) div 4 - (y - 1901) div 100 + (y - 1601) div 400"

text \<open>
  The year of a day number: the largest \<open>y\<close> with \<open>DayFromYear y \<le> d\<close>, found from an
  estimate that is off by at most one.
\<close>

definition YearFromDay :: "int \<Rightarrow> int" where
  "YearFromDay d =
     (let y = 1970 + (400 * d) div 146097 in
      if d < DayFromYear y then y - 1
      else if DayFromYear (y + 1) \<le> d then y + 1
      else y)"

definition YearFromTime :: "int \<Rightarrow> int" where
  "YearFromTime t = YearFromDay (Day t)"

definition InLeapYear :: "int \<Rightarrow> int" where
  "InLeapYear t = (if DaysInYear (YearFromTime t) = 366 then 1 else 0)"

definition DayWithinYear :: "int \<Rightarrow> int" where
  "DayWithinYear t = Day t - DayFromYear (YearFromTime t)"

text \<open>
  \<open>monthStart l m\<close>: the number of days of the year before month \<open>m\<close> (0 is January),
  \<open>l\<close> being 1 in a leap year and 0 otherwise.
\<close>

definition monthStart :: "int \<Rightarrow> int \<Rightarrow> int" where
  "monthStart l m =
     (if m = 0 then 0
      else if m = 1 then 31
      else if m = 2 then 59 + l
      else if m = 3 then 90 + l
      else if m = 4 then 120 + l
      else if m = 5 then 151 + l
      else if m = 6 then 181 + l
      else if m = 7 then 212 + l
      else if m = 8 then 243 + l
      else if m = 9 then 273 + l
      else if m = 10 then 304 + l
      else 334 + l)"

definition MonthFromTime :: "int \<Rightarrow> int" where
  "MonthFromTime t =
     (let d = DayWithinYear t; l = InLeapYear t in
      if d < 31 then 0
      else if d < 59 + l then 1
      else if d < 90 + l then 2
      else if d < 120 + l then 3
      else if d < 151 + l then 4
      else if d < 181 + l then 5
      else if d < 212 + l then 6
      else if d < 243 + l then 7
      else if d < 273 + l then 8
      else if d < 304 + l then 9
      else if d < 334 + l then 10
      else 11)"

definition DateFromTime :: "int \<Rightarrow> int" where
  "DateFromTime t = DayWithinYear t - monthStart (InLeapYear t) (MonthFromTime t) + 1"

definition WeekDay :: "int \<Rightarrow> int" where
  "WeekDay t = (Day t + 4) mod 7"

definition MakeDay :: "int \<Rightarrow> int \<Rightarrow> int \<Rightarrow> int" where
  "MakeDay year month date =
     (let ym = year + month div 12;
          mn = month mod 12 in
      DayFromYear ym + monthStart (if DaysInYear ym = 366 then 1 else 0) mn + date - 1)"

definition MakeDate :: "int \<Rightarrow> int \<Rightarrow> int" where
  "MakeDate day time = day * msPerDay + time"

text \<open>
  The time zone of the server: \<open>utcOffset z t\<close> is the offset of local time in effect at
  the instant \<open>t\<close>, \<open>localOffset z lt\<close> the offset by which the local reading \<open>lt\<close> is
  turned back into an instant (the standard's local time zone adjustment, for a UTC and
  for a local argument). Across a daylight-saving change the two differ.
\<close>

record zone =
  utcOffset :: "int \<Rightarrow> int"
  localOffset :: "int \<Rightarrow> int"

definition LocalTime :: "zone \<Rightarrow> int \<Rightarrow> int" where
  "LocalTime z t = t + utcOffset z t"

definition UTC :: "zone \<Rightarrow> int \<Rightarrow> int" where
  "UTC z lt = lt - localOffset z lt"

definition getDate :: "zone \<Rightarrow> int \<Rightarrow> int" where
  "getDate z t = DateFromTime (LocalTime z t)"

definition getMonth :: "zone \<Rightarrow> int \<Rightarrow> int" where
  "getMonth z t = MonthFromTime (LocalTime z t)"

definition setDate :: "zone \<Rightarrow> int \<Rightarrow> int \<Rightarrow> int" where
  "setDate z t date =
     (let lt = LocalTime z t in
      UTC z (MakeDate (MakeDay (YearFromTime lt) (MonthFromTime lt) date) (TimeWithinDay lt)))"

definition setMonth :: "zone \<Rightarrow> int \<Rightarrow> int \<Rightarrow> int" where
  "setMonth z t month =
     (let lt = LocalTime z t in
      UTC z (MakeDate (MakeDay (YearFromTime lt) month (DateFromTime lt)) (TimeWithinDay lt)))"


section \<open>TransactionService: reports\<close>

datatype durationType = Week | Month

text \<open>The date operators of the database, which read a date in UTC.\<close>

datatype groupBy = DayOfWeek | MonthOfYear | Year

definition timePeriod :: "groupBy \<Rightarrow> int \<Rightarrow> int" where
  "timePeriod g t =
     (case g of
        DayOfWeek \<Rightarrow> WeekDay t + 1
      | MonthOfYear \<Rightarrow> MonthFromTime t + 1
      | Year \<Rightarrow> YearFromTime t)"

record typeTotal =
  row_type :: TransactionType
  totalAmount :: jsnum
  row_count :: nat

record bucket =
  bucket_id :: int
  transactions :: "typeTotal list"

text \<open>
  The summary document. \<open>netFlow = None\<close> is a document that has no field \<open>netFlow\<close>.
\<close>

record summary =
  totalCredit :: jsnum
  totalDebit :: jsnum
  transactionCount :: nat
  netFlow :: "jsnum option"

record report =
  startDate :: int
  endDate :: int
  buckets :: "bucket list"
  report_summary :: summary

text \<open>The accumulator \<open>$sum\<close>, adding from 0 in the order it is handed the values.\<close>

definition jsSum :: "jsnum list \<Rightarrow> jsnum" where
  "jsSum xs = foldl jsAdd (Num 0) xs"

text \<open>
  The stages of the pipeline of \<open>generateReport\<close>. \<open>$match\<close> keeps the documents of the
  store created in \<open>[startDate, endDate)\<close>. A \<open>$group\<close> stage gives one document for each
  distinct key; the database fixes no order among them, the model takes the keys in the
  order \<open>remdups\<close> leaves them. \<open>$sort\<close> with \<open>_id: -1\<close> orders by descending key.
\<close>

definition matchStage :: "string \<Rightarrow> int \<Rightarrow> int \<Rightarrow> transaction list \<Rightarrow> transaction list" where
  "matchStage sid startD endD ds =
     filter (\<lambda>t. storeId t = sid \<and> startD \<le> createdAt t \<and> createdAt t < endD) ds"

definition groupKey :: "groupBy \<Rightarrow> transaction \<Rightarrow> int \<times> TransactionType" where
  "groupKey g t = (timePeriod g (createdAt t), txType t)"

definition groupByPeriodAndType ::
  "groupBy \<Rightarrow> transaction list \<Rightarrow> ((int \<times> TransactionType) \<times> jsnum \<times> nat) list" where
  "groupByPeriodAndType g ds =
     map (\<lambda>k. (k,
               jsSum (map amountInINR (filter (\<lambda>t. groupKey g t = k) ds)),
               length (filter (\<lambda>t. groupKey g t = k) ds)))
         (remdups (map (groupKey g) ds))"

definition groupByPeriod ::
  "((int \<times> TransactionType) \<times> jsnum \<times> nat) list \<Rightarrow> bucket list" where
  "groupByPeriod rows =
     map (\<lambda>p. \<lparr>bucket_id = p,
                transactions =
                  map (\<lambda>(k, total, n). \<lparr>row_type = snd k, totalAmount = total, row_count = n\<rparr>)
                      (filter (\<lambda>(k, total, n). fst k = p) rows)\<rparr>)
         (remdups (map (\<lambda>(k, total, n). fst k) rows))"

definition sortStage :: "bucket list \<Rightarrow> bucket list" where
  "sortStage bs = rev (sort_key bucket_id bs)"

definition reportPipeline ::
  "string \<Rightarrow> int \<Rightarrow> int \<Rightarrow> groupBy \<Rightarrow> transaction list \<Rightarrow> bucket list" where
  "reportPipeline sid startD endD g ds =
     sortStage (groupByPeriod (groupByPeriodAndType g (matchStage sid startD endD ds)))"

text \<open>
  The pipeline of \<open>calculateSummary\<close>: \<open>$match\<close>, then one \<open>$group\<close> with \<open>_id: null\<close>,
  which gives no document for an empty input and otherwise one document with the fields
  \<open>totalCredit\<close>, \<open>totalDebit\<close> and \<open>transactionCount\<close>.
\<close>

definition summaryPipeline :: "string \<Rightarrow> int \<Rightarrow> int \<Rightarrow> transaction list \<Rightarrow> summary list" where
  "summaryPipeline sid startD endD ds =
     (let ms = matchStage sid startD endD ds in
      if ms = [] then []
      else [\<lparr>totalCredit =
                jsSum (map (\<lambda>t. if txType t = CREDIT then amountInINR t else Num 0) ms),
              totalDebit =
                jsSum (map (\<lambda>t. if txType t = DEBIT then amountInINR t else Num 0) ms),
              transactionCount = length ms,
              netFlow = None\<rparr>])"

definition calculateSummary ::
  "string \<Rightarrow> int \<Rightarrow> int \<Rightarrow> mongo \<Rightarrow> (error + summary) \<times> mongo" where
  "calculateSummary sid startD endD m =
     (let (res, m') = repository_aggregate (summaryPipeline sid startD endD) m in
      case res of
        Inl e \<Rightarrow> (Inl e, m')
      | Inr [] \<Rightarrow>
          (Inr \<lparr>totalCredit = Num 0, totalDebit = Num 0, transactionCount = 0,
                netFlow = Some (Num 0)\<rparr>, m')
      | Inr (s # rest) \<Rightarrow> (Inr s, m'))"

text \<open>
  \<open>generateReport(storeId, durationType, startDate, groupBy = '$dayOfWeek')\<close>; a missing
  fourth argument is \<open>None\<close>.
\<close>

definition generateReport ::
  "zone \<Rightarrow> string \<Rightarrow> durationType \<Rightarrow> int \<Rightarrow> groupBy option \<Rightarrow> mongo \<Rightarrow> (error + report) \<times> mongo" where
  "generateReport z sid duration startD groupByArg m =
     (let g = (case groupByArg of None \<Rightarrow> DayOfWeek | Some g' \<Rightarrow> g');
          endD = (case duration of
                   Week \<Rightarrow> setDate z startD (getDate z startD + 7)
                 | Month \<Rightarrow> setMonth z startD (getMonth z startD + 1));
          (results, m1) = repository_aggregate (reportPipeline sid startD endD g) m in
      case results of
        Inl e \<Rightarrow> (Inl e, m1)
      | Inr bs \<Rightarrow>
          (let (s, m2) = calculateSummary sid startD endD m1 in
           case s of
             Inl e \<Rightarrow> (Inl e, m2)
           | Inr sm \<Rightarrow>
               (Inr \<lparr>startDate = startD, endDate = endD, buckets = bs, report_summary = sm\<rparr>,
                m2)))"

section \<open>TransactionController: the report endpoints\<close>

text \<open>
  \<open>date\<close> is the query parameter once parsed: \<open>None\<close> when it is missing or empty, in
  which case \<open>new Date()\<close> reads the clock \<open>clock\<close>; a parameter that is present
  parses to a valid date.
\<close>

definition getWeeklyReport ::
  "zone \<Rightarrow> int \<Rightarrow> user \<Rightarrow> int option \<Rightarrow> mongo \<Rightarrow> (error + report) \<times> mongo" where
  "getWeeklyReport z clock u date m =
     (case user_storeId u of
        None \<Rightarrow> (Inl TypeError, m)
      | Some sid \<Rightarrow>
          generateReport z sid Week (case date of None \<Rightarrow> clock | Some d \<Rightarrow> d) None m)"

definition getMonthlyReport ::
  "zone \<Rightarrow> int \<Rightarrow> user \<Rightarrow> int option \<Rightarrow> mongo \<Rightarrow> (error + report) \<times> mongo" where
  "getMonthlyReport z clock u date m =
     (case user_storeId u of
        None \<Rightarrow> (Inl TypeError, m)
      | Some sid \<Rightarrow>
          generateReport z sid Month (case date of None \<Rightarrow> clock | Some d \<Rightarrow> d) None m)"

section \<open>Example states\<close>

text \<open>
  A store in which the lock of store \<open>s1\<close> is held by another caller, with ten seconds
  left before it expires.
\<close>

definition held_store :: redis where
  "held_store =
     \<lparr>entries = [LOCK_key ''transaction:s1'' \<mapsto> (''token-a'', Some 10000)],
      now = 0, faults = [], sent = []\<rparr>"

text \<open>The same lock, with 300 ms left.\<close>

definition expiring_store :: redis where
  "expiring_store =
     \<lparr>entries = [LOCK_key ''transaction:s1'' \<mapsto> (''token-a'', Some 300)],
      now = 0, faults = [], sent = []\<rparr>"

text \<open>
  A stand-in for \<open>JSON.parse\<close> and \<open>JSON.stringify\<close> on the few documents the examples
  store, a producer that counts its calls in its world, one that always fails, and some
  stores: empty; unreachable for the next two commands; holding a truthy and a falsy
  document under the key \<open>k\<close>.
\<close>

definition sample_parse :: "string \<Rightarrow> json option" where
  "sample_parse s =
     (if s = ''null'' then Some JNull
      else if s = ''false'' then Some (JBool False)
      else if s = ''0'' then Some (JNum 0)
      else if s = ''7'' then Some (JNum 7)
      else if s = ''{INR:83,USD:1}'' then Some (JObj [(''INR'', 83), (''USD'', 1)])
      else None)"

definition sample_stringify :: "json \<Rightarrow> string" where
  "sample_stringify v =
     (case v of
        JNull \<Rightarrow> ''null''
      | JBool b \<Rightarrow> (if b then ''true'' else ''false'')
      | JNum n \<Rightarrow> (if n = 0 then ''0'' else ''7'')
      | JStr s \<Rightarrow> s
      | JObj kvs \<Rightarrow> ''{INR:83,USD:1}'')"

definition counting_producer :: "json \<Rightarrow> nat \<Rightarrow> (error + json) \<times> nat" where
  "counting_producer v n = (Inr v, Suc n)"

definition failing_producer :: "nat \<Rightarrow> (error + json) \<times> nat" where
  "failing_producer n = (Inl ServiceUnavailable, Suc n)"

definition empty_store :: redis where
  "empty_store = \<lparr>entries = Map.empty, now = 0, faults = [], sent = []\<rparr>"

definition down_store :: redis where
  "down_store = \<lparr>entries = Map.empty, now = 0, faults = [True, True], sent = []\<rparr>"

definition seven_store :: redis where
  "seven_store = \<lparr>entries = [''k'' \<mapsto> (''7'', None)], now = 0, faults = [], sent = []\<rparr>"

definition zero_store :: redis where
  "zero_store = \<lparr>entries = [''k'' \<mapsto> (''0'', None)], now = 0, faults = [], sent = []\<rparr>"

text \<open>
  A store that holds the rate table under the key of \<open>getCurrencyRates\<close>, a provider with
  no reply to give, a user of store \<open>s1\<close>, a request in a foreign currency, and a system
  whose cache is empty and whose rate provider fails.
\<close>

definition rates_store :: redis where
  "rates_store =
     \<lparr>entries = [CURRENCY_RATES_key \<mapsto> (''{INR:83,USD:1}'', Some 3600000)],
      now = 0, faults = [], sent = []\<rparr>"

definition silent_provider :: provider where
  "silent_provider = \<lparr>replies = [], calls = 0\<rparr>"

definition alice :: user where
  "alice = \<lparr>user_id = ''u1'', user_storeId = Some ''s1''\<rparr>"

definition usd_credit :: CreateTransactionDto where
  "usd_credit =
     \<lparr>dto_amount = 10, dto_description = None, dto_type = CREDIT, dto_currency = ''USD''\<rparr>"

text \<open>
  A provider whose next reply is a table in which a dollar and a rupee cost the same, 49
  units of the base currency each.
\<close>

definition par_provider :: provider where
  "par_provider = \<lparr>replies = [FxRates (JObj [(''INR'', 49), (''USD'', 49)])], calls = 0\<rparr>"

definition provider_down_sys :: sys where
  "provider_down_sys =
     \<lparr>kv = \<lparr>entries = Map.empty, now = 0, faults = [], sent = []\<rparr>,
      fxp = \<lparr>replies = [FxFailure], calls = 0\<rparr>,
      db = \<lparr>docs = [], inflight = [], mfaults = []\<rparr>\<rparr>"

text \<open>
  The scenario of a successful request: user \<open>alice\<close> of store \<open>s1\<close> records a credit
  of 100 rupees with the token \<open>token-b\<close> on an idle system (lock free, store reachable,
  database accepting) at time 0. \<open>locked_sys\<close> is the system once \<open>acquireLock\<close> has
  returned, \<open>pending_sys\<close> the system when the \<open>try\<close> block is left, which is the state
  the \<open>finally\<close> block starts in, and \<open>released_sys\<close> the system when the \<open>finally\<close>
  block is done. \<open>credit_doc\<close> is the document of the request. \<open>db_down_sys\<close> is the
  idle system with a database that rejects its next operation.
\<close>

definition inr_credit :: CreateTransactionDto where
  "inr_credit =
     \<lparr>dto_amount = 100, dto_description = None, dto_type = CREDIT, dto_currency = ''INR''\<rparr>"

definition credit_doc :: transaction where
  "credit_doc =
     \<lparr>storeId = ''s1'', amount = 100, description = None, txType = CREDIT, currency = ''INR'',
      amountInINR = Num 100, createdBy = ''u1'', createdAt = 0\<rparr>"

definition idle_sys :: sys where
  "idle_sys =
     \<lparr>kv = \<lparr>entries = Map.empty, now = 0, faults = [], sent = []\<rparr>,
      fxp = \<lparr>replies = [], calls = 0\<rparr>,
      db = \<lparr>docs = [], inflight = [], mfaults = []\<rparr>\<rparr>"

definition db_down_sys :: sys where
  "db_down_sys = idle_sys\<lparr>db := \<lparr>docs = [], inflight = [], mfaults = [True]\<rparr>\<rparr>"

definition locked_sys :: sys where
  "locked_sys =
     idle_sys\<lparr>kv := snd (acquireLock ''transaction:s1'' ''token-b'' LOCK_expiry
                           DEFAULT_RETRY_COUNT (kv idle_sys))\<rparr>"

definition pending_sys :: sys where
  "pending_sys =
     snd (createTransaction_try sample_parse sample_stringify ''s1'' alice inr_credit locked_sys)"

definition released_sys :: sys where
  "released_sys =
     pending_sys\<lparr>kv := snd (releaseLock ''transaction:s1'' ''token-b'' (kv pending_sys))\<rparr>"

text \<open>
  The ledger of the end-to-end scenario: store \<open>S\<close> has a credit of 100 on Monday
  2024-01-01 and a debit of 40 on Wednesday 2024-01-03 (both at midnight UTC). The larger
  ledger adds a credit of another store and a credit of 5 on Monday 2024-01-08, the very
  instant the week that starts on 2024-01-01 ends. The reports are the ones expected for
  the week and the month from 2024-01-01, and for the month from 2024-01-31.
\<close>

definition credit_monday :: transaction where
  "credit_monday =
     \<lparr>storeId = ''S'', amount = 100, description = None, txType = CREDIT, currency = ''INR'',
      amountInINR = Num 100, createdBy = ''u1'', createdAt = 1704067200000\<rparr>"

definition debit_wednesday :: transaction where
  "debit_wednesday =
     \<lparr>storeId = ''S'', amount = 40, description = None, txType = DEBIT, currency = ''INR'',
      amountInINR = Num 40, createdBy = ''u1'', createdAt = 1704240000000\<rparr>"

definition credit_next_monday :: transaction where
  "credit_next_monday =
     \<lparr>storeId = ''S'', amount = 5, description = None, txType = CREDIT, currency = ''INR'',
      amountInINR = Num 5, createdBy = ''u1'', createdAt = 1704672000000\<rparr>"

definition credit_elsewhere :: transaction where
  "credit_elsewhere =
     \<lparr>storeId = ''T'', amount = 7, description = None, txType = CREDIT, currency = ''INR'',
      amountInINR = Num 7, createdBy = ''u2'', createdAt = 1704153600000\<rparr>"

definition week_db :: mongo where
  "week_db = \<lparr>docs = [credit_monday, debit_wednesday], inflight = [], mfaults = []\<rparr>"

definition month_db :: mongo where
  "month_db =
     \<lparr>docs = [credit_monday, credit_elsewhere, debit_wednesday, credit_next_monday],
      inflight = [], mfaults = []\<rparr>"



definition month_report :: report where
  "month_report =
     \<lparr>startDate = 1704067200000, endDate = 1706745600000,
      buckets =
        [\<lparr>bucket_id = 4,
           transactions = [\<lparr>row_type = DEBIT, totalAmount = Num 40, row_count = 1\<rparr>]\<rparr>,
         \<lparr>bucket_id = 2,
           transactions = [\<lparr>row_type = CREDIT, totalAmount = Num 105, row_count = 2\<rparr>]\<rparr>],
      report_summary =
        \<lparr>totalCredit = Num 105, totalDebit = Num 40, transactionCount = 3, netFlow = None\<rparr>\<rparr>"

definition store_user :: user where
  "store_user = \<lparr>user_id = ''u1'', user_storeId = Some ''S''\<rparr>"

text \<open>
  Two time zones: a server that keeps UTC, and one whose clocks go forward an hour, from
  5 to 4 hours behind UTC, at 2024-03-10T07:00Z (2 o'clock local time, as in New York);
  a local time that the change skips is read with the offset before the change.
\<close>

definition utc_zone :: zone where
  "utc_zone = \<lparr>utcOffset = (\<lambda>t. 0), localOffset = (\<lambda>lt. 0)\<rparr>"





section \<open>The store commands\<close>

lemma live_upd_simps [simp]:
  "live (r\<lparr>sent := s\<rparr>) k = live r k"
  "live (r\<lparr>faults := f\<rparr>) k = live r k"
  by (simp_all add: live_def split: option.splits)

lemma set_tl_subset: "set (tl xs) \<subseteq> set xs"
  by (cases xs) auto

lemma send_facts:
  "send c r = (failed, r') \<Longrightarrow>
     entries r' = entries r \<and> now r' = now r \<and> sent r' = sent r @ [c] \<and>
     faults r' = tl (faults r) \<and> (failed \<longleftrightarrow> \<not> reachable r)"
  by (auto simp: send_def reachable_def split: list.splits)

lemma send_eq:
  "send c r = (\<not> reachable r, r\<lparr>faults := tl (faults r), sent := sent r @ [c]\<rparr>)"
  by (auto simp: send_def reachable_def split: list.splits)

lemma set_px_nx_eq:
  "redis_set_px_nx k v ttl r =
     (let r' = r\<lparr>faults := tl (faults r), sent := sent r @ [SET_PX_NX k v ttl]\<rparr> in
      if \<not> reachable r then (Inl TransportError, r')
      else if ttl = 0 then (Inl ReplyError, r')
      else if live r k \<noteq> None then (Inr False, r')
      else (Inr True, r'\<lparr>entries := (entries r)(k \<mapsto> (v, Some (now r + int ttl)))\<rparr>))"
  by (auto simp: redis_set_px_nx_def send_eq Let_def split: option.splits)

section \<open>Releasing a lock\<close>

text \<open>
  C2. When the script call reaches the store, \<open>releaseLock key token\<close> returns \<open>true\<close>
  exactly when the entry under the lock key is present (and not expired) with the value
  \<open>token\<close>, and then the entry is deleted; in every other case it returns \<open>false\<close> and the
  entries are as before. No error is raised.
\<close>

theorem releaseLock_token_gated:
  assumes "reachable r"
  shows "releaseLock key token r =
           (Inr (live r (LOCK_key key) = Some token),
            r\<lparr>entries := (if live r (LOCK_key key) = Some token
                           then (entries r)(LOCK_key key := None) else entries r),
              faults := tl (faults r),
              sent := sent r @ [EVAL_RELEASE (LOCK_key key) token]\<rparr>)"
  using assms
  by (simp add: releaseLock_def redis_eval_release_def send_eq)

theorem releaseLock_token_gated_witness:
  "reachable held_store
   \<and> fst (releaseLock ''transaction:s1'' ''token-b'' held_store) = Inr False
   \<and> entries (snd (releaseLock ''transaction:s1'' ''token-b'' held_store)) = entries held_store
   \<and> fst (releaseLock ''transaction:s1'' ''token-a'' held_store) = Inr True
   \<and> entries (snd (releaseLock ''transaction:s1'' ''token-a'' held_store)) (LOCK_key ''transaction:s1'') = None"
proof -
  have h: "reachable held_store" by (simp add: reachable_def held_store_def)
  show ?thesis
    using h releaseLock_token_gated[OF h, of "''transaction:s1''" "''token-b''"]
      releaseLock_token_gated[OF h, of "''transaction:s1''" "''token-a''"]
    by (simp add: live_def held_store_def)
qed

section \<open>Acquiring a lock\<close>

lemma loop_unfold:
  "acquireLock_loop k v ttl rc a r =
     (if a < rc then
        (case redis_set_px_nx k v ttl r of
           (Inl e, r') \<Rightarrow> (Inl e, r')
         | (Inr ok, r') \<Rightarrow>
             if ok then (Inr (Some v), r')
             else acquireLock_loop k v ttl rc (Suc a) (sleep DEFAULT_RETRY_DELAY r'))
      else (Inr None, r))"
  by (subst acquireLock_loop.simps) (simp split: prod.splits sum.splits)

lemma loop_trace:
  "acquireLock_loop k v ttl rc a r = (res, r') \<Longrightarrow>
     \<exists>n. n \<le> rc - a \<and> sent r' = sent r @ replicate n (SET_PX_NX k v ttl) \<and>
         (case res of
            Inr None \<Rightarrow> n = rc - a \<and> now r' = now r + int (n * DEFAULT_RETRY_DELAY)
                         \<and> entries r' = entries r
          | Inr (Some t) \<Rightarrow> t = v \<and> 0 < n \<and> now r' = now r + int ((n - 1) * DEFAULT_RETRY_DELAY)
                         \<and> entries r' = (entries r)(k \<mapsto> (v, Some (now r' + int ttl)))
          | Inl e \<Rightarrow> 0 < n \<and> now r' = now r + int ((n - 1) * DEFAULT_RETRY_DELAY)
                         \<and> entries r' = entries r
                         \<and> (e = TransportError \<and> True \<in> set (faults r) \<or> e = ReplyError \<and> ttl = 0))"
proof (induction k v ttl rc a r arbitrary: res r' rule: acquireLock_loop.induct)
  case (1 k v ttl rc a r)
  show ?case
  proof (cases "a < rc")
    case False
    with "1.prems" show ?thesis
      by (subst (asm) loop_unfold) (auto intro: exI[of _ 0])
  next
    case True
    obtain q r1 where q: "redis_set_px_nx k v ttl r = (q, r1)" by (cases "redis_set_px_nx k v ttl r")
    have r1: "sent r1 = sent r @ [SET_PX_NX k v ttl]" "now r1 = now r"
      using q by (auto simp: set_px_nx_eq Let_def split: if_splits)
    show ?thesis
    proof (cases q)
      case (Inl e)
      with True q "1.prems" have "res = Inl e" "r' = r1"
        by (subst (asm) loop_unfold; simp)+
      moreover have "entries r1 = entries r"
        using q Inl by (auto simp: set_px_nx_eq Let_def split: if_splits)
      moreover have "e = TransportError \<and> True \<in> set (faults r) \<or> e = ReplyError \<and> ttl = 0"
        using q Inl by (auto simp: set_px_nx_eq Let_def reachable_def split: if_splits list.splits)
      ultimately show ?thesis using r1 True
        by (intro exI[of _ 1]) simp
    next
      case (Inr ok)
      show ?thesis
      proof (cases ok)
        case True
        with \<open>a < rc\<close> q Inr "1.prems" have "res = Inr (Some v)" "r' = r1"
          by (subst (asm) loop_unfold; simp)+
        moreover have "entries r1 = (entries r)(k \<mapsto> (v, Some (now r + int ttl)))"
          using q Inr True by (auto simp: set_px_nx_eq Let_def split: if_splits)
        ultimately show ?thesis using r1 \<open>a < rc\<close>
          by (intro exI[of _ 1]) simp
      next
        case False
        let ?r2 = "sleep DEFAULT_RETRY_DELAY r1"
        have rec: "acquireLock_loop k v ttl rc (Suc a) ?r2 = (res, r')"
          using \<open>a < rc\<close> q Inr False "1.prems" by (subst (asm) loop_unfold) simp
        have e1: "entries r1 = entries r"
          using q Inr False by (auto simp: set_px_nx_eq Let_def split: if_splits)
        from "1.IH"[OF \<open>a < rc\<close> q[symmetric] refl Inr False rec]
        obtain n where n: "n \<le> rc - Suc a"
          "sent r' = sent ?r2 @ replicate n (SET_PX_NX k v ttl)"
          "(case res of
            Inr None \<Rightarrow> n = rc - Suc a \<and> now r' = now ?r2 + int (n * DEFAULT_RETRY_DELAY)
                         \<and> entries r' = entries ?r2
          | Inr (Some t) \<Rightarrow> t = v \<and> 0 < n \<and> now r' = now ?r2 + int ((n - 1) * DEFAULT_RETRY_DELAY)
                         \<and> entries r' = (entries ?r2)(k \<mapsto> (v, Some (now r' + int ttl)))
          | Inl e \<Rightarrow> 0 < n \<and> now r' = now ?r2 + int ((n - 1) * DEFAULT_RETRY_DELAY)
                         \<and> entries r' = entries ?r2
                         \<and> (e = TransportError \<and> True \<in> set (faults ?r2) \<or> e = ReplyError \<and> ttl = 0))"
          by blast
        have f1: "faults r1 = tl (faults r)"
          using q by (auto simp: set_px_nx_eq Let_def split: if_splits)
        have s2: "sent ?r2 = sent r @ [SET_PX_NX k v ttl]" "now ?r2 = now r + int DEFAULT_RETRY_DELAY"
          "entries ?r2 = entries r" "set (faults ?r2) \<subseteq> set (faults r)"
          using r1 e1 f1 by (auto simp: sleep_def dest: set_tl_subset[THEN subsetD])
        show ?thesis
          using n s2 \<open>a < rc\<close>
          by (intro exI[of _ "Suc n"])
             (auto simp: replicate_append_same split: sum.splits option.splits simp: algebra_simps)
      qed
    qed
  qed
qed

lemma loop_contended:
  "faults r = [] \<Longrightarrow> 0 < ttl \<Longrightarrow> entries r k = Some (v0, e) \<Longrightarrow>
   (\<forall>t. e = Some t \<longrightarrow> now r + int ((rc - a - 1) * DEFAULT_RETRY_DELAY) < t) \<Longrightarrow>
   fst (acquireLock_loop k v ttl rc a r) = Inr None"
proof (induction k v ttl rc a r rule: acquireLock_loop.induct)
  case (1 k v ttl rc a r)
  show ?case
  proof (cases "a < rc")
    case False
    then show ?thesis by (subst loop_unfold) simp
  next
    case True
    let ?r1 = "r\<lparr>faults := tl (faults r), sent := sent r @ [SET_PX_NX k v ttl]\<rparr>"
    have held: "live r k \<noteq> None"
    proof (cases e)
      case None
      with "1.prems" show ?thesis by (simp add: live_def)
    next
      case (Some t)
      with "1.prems"(4) have "now r + int ((rc - a - 1) * DEFAULT_RETRY_DELAY) < t" by simp
      then have "now r < t" by (smt (verit) of_nat_0_le_iff)
      with Some "1.prems"(3) show ?thesis by (simp add: live_def)
    qed
    have q: "redis_set_px_nx k v ttl r = (Inr False, ?r1)"
      using "1.prems" held by (simp add: set_px_nx_eq Let_def reachable_def)
    let ?r2 = "sleep DEFAULT_RETRY_DELAY ?r1"
    have step: "acquireLock_loop k v ttl rc a r = acquireLock_loop k v ttl rc (Suc a) ?r2"
      using True q by (subst loop_unfold) simp
    have "fst (acquireLock_loop k v ttl rc (Suc a) ?r2) = Inr None"
    proof (cases "Suc a < rc")
      case False
      then show ?thesis by (subst loop_unfold) simp
    next
      case less: True
      have a: "faults ?r2 = []" "entries ?r2 k = Some (v0, e)"
        using "1.prems" by (simp_all add: sleep_def)
      have "rc - a - 1 = Suc (rc - Suc a - 1)"
        using less by simp
      then have "int ((rc - Suc a - 1) * DEFAULT_RETRY_DELAY) + int DEFAULT_RETRY_DELAY
              = int ((rc - a - 1) * DEFAULT_RETRY_DELAY)"
        by simp
      moreover have "now ?r2 = now r + int DEFAULT_RETRY_DELAY"
        by (simp add: sleep_def)
      ultimately have b: "\<forall>t. e = Some t \<longrightarrow> now ?r2 + int ((rc - Suc a - 1) * DEFAULT_RETRY_DELAY) < t"
        using "1.prems"(4) by (metis add.assoc add.commute)
      show ?thesis
        by (rule "1.IH"[OF True q[symmetric] refl refl _ a(1) "1.prems"(2) a(2) b]) simp
    qed
    with step show ?thesis by simp
  qed
qed

lemma live_cong: "entries r = entries r' \<Longrightarrow> now r = now r' \<Longrightarrow> live r k = live r' k"
  by (auto simp: live_def split: option.splits)

lemma loop_first_free:
  "faults r = [] \<Longrightarrow> 0 < ttl \<Longrightarrow> a + n0 < rc \<Longrightarrow>
   (\<forall>j<n0. live (r\<lparr>now := now r + int (j * DEFAULT_RETRY_DELAY)\<rparr>) k \<noteq> None) \<Longrightarrow>
   live (r\<lparr>now := now r + int (n0 * DEFAULT_RETRY_DELAY)\<rparr>) k = None \<Longrightarrow>
   fst (acquireLock_loop k v ttl rc a r) = Inr (Some v)
   \<and> sent (snd (acquireLock_loop k v ttl rc a r))
       = sent r @ replicate (Suc n0) (SET_PX_NX k v ttl)"
proof (induction n0 arbitrary: a r)
  case 0
  then have free: "live r k = None" and a: "a < rc" by simp_all
  have q: "redis_set_px_nx k v ttl r =
             (Inr True, r\<lparr>faults := tl (faults r), sent := sent r @ [SET_PX_NX k v ttl]\<rparr>
                          \<lparr>entries := (entries r)(k \<mapsto> (v, Some (now r + int ttl)))\<rparr>)"
    using 0(1,2) free by (simp add: set_px_nx_eq Let_def reachable_def)
  show ?case
    using a q by (subst (1 2) loop_unfold) simp
next
  case (Suc n0)
  let ?r1 = "r\<lparr>faults := tl (faults r), sent := sent r @ [SET_PX_NX k v ttl]\<rparr>"
  let ?r2 = "sleep DEFAULT_RETRY_DELAY ?r1"
  from Suc.prems(4) have "live (r\<lparr>now := now r + int (0 * DEFAULT_RETRY_DELAY)\<rparr>) k \<noteq> None"
    by blast
  then have held: "live r k \<noteq> None" by simp
  have a: "a < rc" using Suc.prems(3) by simp
  have q: "redis_set_px_nx k v ttl r = (Inr False, ?r1)"
    using Suc.prems(1,2) held by (simp add: set_px_nx_eq Let_def reachable_def)
  have step: "acquireLock_loop k v ttl rc a r = acquireLock_loop k v ttl rc (Suc a) ?r2"
    using a q by (subst loop_unfold) simp
  have shift: "live (?r2\<lparr>now := now ?r2 + int (j * DEFAULT_RETRY_DELAY)\<rparr>) k
                 = live (r\<lparr>now := now r + int (Suc j * DEFAULT_RETRY_DELAY)\<rparr>) k" for j
    by (rule live_cong) (simp_all add: sleep_def algebra_simps)
  have f2: "faults ?r2 = []" using Suc.prems(1) by (simp add: sleep_def)
  have b: "Suc a + n0 < rc" using Suc.prems(3) by simp
  have h: "\<forall>j<n0. live (?r2\<lparr>now := now ?r2 + int (j * DEFAULT_RETRY_DELAY)\<rparr>) k \<noteq> None"
  proof (intro allI impI)
    fix j assume "j < n0"
    then have "Suc j < Suc n0" by simp
    with Suc.prems(4)
    have "live (r\<lparr>now := now r + int (Suc j * DEFAULT_RETRY_DELAY)\<rparr>) k \<noteq> None" by blast
    then show "live (?r2\<lparr>now := now ?r2 + int (j * DEFAULT_RETRY_DELAY)\<rparr>) k \<noteq> None"
      unfolding shift .
  qed
  have fr: "live (?r2\<lparr>now := now ?r2 + int (n0 * DEFAULT_RETRY_DELAY)\<rparr>) k = None"
    using Suc.prems(5) unfolding shift .
  from Suc.IH[OF f2 Suc.prems(2) b h fr]
  show ?case
    unfolding step by (simp add: sleep_def)
qed

text \<open>
  C4. \<open>acquireLock\<close> sends at most \<open>maxAttempts\<close> conditional \<open>SET ... NX\<close> commands and
  nothing else. A result \<open>null\<close> comes after exactly \<open>maxAttempts\<close> attempts, each followed
  by the 200 ms timer, and leaves the entries as they were. A token result is the token
  drawn for this call, returned at once after the attempt that stored it: the timer ran
  only after the attempts before. An error comes only from a transport failure or a
  rejected expiry of zero, never from contention. When no transport failure is pending and
  the lock key is held by an entry that does not expire before the last attempt, the
  result is \<open>null\<close>. When, with no transport failure pending and a positive expiry, the
  key is present at the first \<open>n0\<close> attempts and absent at the next one, which is within
  the budget, that attempt stores the token and the result is the token, after
  \<open>n0 + 1\<close> attempts: a free key gives the token at the first attempt.
\<close>

theorem acquireLock_bounded_retry:
  assumes "acquireLock key token ttl maxAttempts r = (res, r')"
  shows "\<exists>n. n \<le> maxAttempts
           \<and> sent r' = sent r @ replicate n (SET_PX_NX (LOCK_key key) token ttl)
           \<and> (res = Inr None \<longrightarrow>
                n = maxAttempts \<and> now r' = now r + int (n * DEFAULT_RETRY_DELAY)
                \<and> entries r' = entries r)
           \<and> (\<forall>t. res = Inr (Some t) \<longrightarrow>
                t = token \<and> 0 < n \<and> now r' = now r + int ((n - 1) * DEFAULT_RETRY_DELAY)
                \<and> entries r' = (entries r)(LOCK_key key \<mapsto> (token, Some (now r' + int ttl))))
           \<and> (\<forall>e. res = Inl e \<longrightarrow>
                e = TransportError \<and> True \<in> set (faults r) \<or> e = ReplyError \<and> ttl = 0)
           \<and> (faults r = [] \<and> 0 < ttl
                \<and> (\<exists>v0 e. entries r (LOCK_key key) = Some (v0, e)
                      \<and> (\<forall>t. e = Some t \<longrightarrow>
                            now r + int ((maxAttempts - 1) * DEFAULT_RETRY_DELAY) < t))
                \<longrightarrow> res = Inr None)
           \<and> (\<forall>n0. faults r = [] \<and> 0 < ttl \<and> n0 < maxAttempts
                  \<and> (\<forall>j<n0. live (r\<lparr>now := now r + int (j * DEFAULT_RETRY_DELAY)\<rparr>)
                               (LOCK_key key) \<noteq> None)
                  \<and> live (r\<lparr>now := now r + int (n0 * DEFAULT_RETRY_DELAY)\<rparr>)
                        (LOCK_key key) = None
                \<longrightarrow> res = Inr (Some token) \<and> n = Suc n0)"
proof -
  from assms have loop: "acquireLock_loop (LOCK_key key) token ttl maxAttempts 0 r = (res, r')"
    by (simp add: acquireLock_def)
  from loop_trace[OF loop] obtain n where n: "n \<le> maxAttempts"
    "sent r' = sent r @ replicate n (SET_PX_NX (LOCK_key key) token ttl)"
    "(case res of
        Inr None \<Rightarrow> n = maxAttempts - 0 \<and> now r' = now r + int (n * DEFAULT_RETRY_DELAY)
                     \<and> entries r' = entries r
      | Inr (Some t) \<Rightarrow> t = token \<and> 0 < n \<and> now r' = now r + int ((n - 1) * DEFAULT_RETRY_DELAY)
                     \<and> entries r' = (entries r)(LOCK_key key \<mapsto> (token, Some (now r' + int ttl)))
      | Inl e \<Rightarrow> 0 < n \<and> now r' = now r + int ((n - 1) * DEFAULT_RETRY_DELAY)
                     \<and> entries r' = entries r
                     \<and> (e = TransportError \<and> True \<in> set (faults r) \<or> e = ReplyError \<and> ttl = 0))"
    by auto
  have held: "res = Inr None"
    if "faults r = []" "0 < ttl" "entries r (LOCK_key key) = Some (v0, e)"
       "\<forall>t. e = Some t \<longrightarrow> now r + int ((maxAttempts - 1) * DEFAULT_RETRY_DELAY) < t" for v0 e
    using loop_contended[of r ttl "LOCK_key key" v0 e maxAttempts 0 token] that loop by simp
  have free: "res = Inr (Some token) \<and> n = Suc n0"
    if "faults r = []" "0 < ttl" "n0 < maxAttempts"
       "\<forall>j<n0. live (r\<lparr>now := now r + int (j * DEFAULT_RETRY_DELAY)\<rparr>) (LOCK_key key) \<noteq> None"
       "live (r\<lparr>now := now r + int (n0 * DEFAULT_RETRY_DELAY)\<rparr>) (LOCK_key key) = None" for n0
  proof -
    from that(3) have "0 + n0 < maxAttempts" by simp
    from loop_first_free[OF that(1,2) this that(4,5), of token] loop
    have r: "res = Inr (Some token)"
      and s: "sent r' = sent r @ replicate (Suc n0) (SET_PX_NX (LOCK_key key) token ttl)"
      by simp_all
    from s n(2) have "length (replicate n (SET_PX_NX (LOCK_key key) token ttl))
                        = length (replicate (Suc n0) (SET_PX_NX (LOCK_key key) token ttl))"
      by simp
    then have "n = Suc n0" by simp
    with r show ?thesis by simp
  qed
  have rest: "(res = Inr None \<longrightarrow>
                n = maxAttempts \<and> now r' = now r + int (n * DEFAULT_RETRY_DELAY)
                \<and> entries r' = entries r)
           \<and> (\<forall>t. res = Inr (Some t) \<longrightarrow>
                t = token \<and> 0 < n \<and> now r' = now r + int ((n - 1) * DEFAULT_RETRY_DELAY)
                \<and> entries r' = (entries r)(LOCK_key key \<mapsto> (token, Some (now r' + int ttl))))
           \<and> (\<forall>e. res = Inl e \<longrightarrow>
                e = TransportError \<and> True \<in> set (faults r) \<or> e = ReplyError \<and> ttl = 0)"
    using n(3) by (auto split: sum.splits option.splits)
  show ?thesis
    using n(1,2) rest held free by (intro exI[of _ n]) blast
qed

theorem acquireLock_bounded_retry_witness:
  "fst (acquireLock ''transaction:s1'' ''token-b'' LOCK_expiry DEFAULT_RETRY_COUNT held_store) = Inr None
   \<and> sent (snd (acquireLock ''transaction:s1'' ''token-b'' LOCK_expiry DEFAULT_RETRY_COUNT held_store))
       = replicate 3 (SET_PX_NX (LOCK_key ''transaction:s1'') ''token-b'' 10000)
   \<and> now (snd (acquireLock ''transaction:s1'' ''token-b'' LOCK_expiry DEFAULT_RETRY_COUNT held_store)) = 600
   \<and> fst (acquireLock ''transaction:s1'' ''token-b'' LOCK_expiry DEFAULT_RETRY_COUNT empty_store)
       = Inr (Some ''token-b'')
   \<and> sent (snd (acquireLock ''transaction:s1'' ''token-b'' LOCK_expiry DEFAULT_RETRY_COUNT empty_store))
       = [SET_PX_NX (LOCK_key ''transaction:s1'') ''token-b'' 10000]
   \<and> now (snd (acquireLock ''transaction:s1'' ''token-b'' LOCK_expiry DEFAULT_RETRY_COUNT empty_store)) = 0
   \<and> fst (acquireLock ''transaction:s1'' ''token-b'' LOCK_expiry DEFAULT_RETRY_COUNT expiring_store)
       = Inr (Some ''token-b'')
   \<and> sent (snd (acquireLock ''transaction:s1'' ''token-b'' LOCK_expiry DEFAULT_RETRY_COUNT expiring_store))
       = replicate 3 (SET_PX_NX (LOCK_key ''transaction:s1'') ''token-b'' 10000)
   \<and> now (snd (acquireLock ''transaction:s1'' ''token-b'' LOCK_expiry DEFAULT_RETRY_COUNT expiring_store)) = 400"
proof -
  let ?X = "acquireLock ''transaction:s1'' ''token-b'' LOCK_expiry DEFAULT_RETRY_COUNT held_store"
  let ?Y = "acquireLock ''transaction:s1'' ''token-b'' LOCK_expiry DEFAULT_RETRY_COUNT empty_store"
  let ?Z = "acquireLock ''transaction:s1'' ''token-b'' LOCK_expiry DEFAULT_RETRY_COUNT expiring_store"
  let ?k = "LOCK_key ''transaction:s1''"
  let ?c = "SET_PX_NX ?k ''token-b'' LOCK_expiry"
  have hx: "?X = (fst ?X, snd ?X)" and hy: "?Y = (fst ?Y, snd ?Y)" and hz: "?Z = (fst ?Z, snd ?Z)"
    by simp_all
  have pre: "faults held_store = [] \<and> 0 < LOCK_expiry
        \<and> (\<exists>v0 e. entries held_store ?k = Some (v0, e)
              \<and> (\<forall>t. e = Some t \<longrightarrow> now held_store + int ((DEFAULT_RETRY_COUNT - 1) * DEFAULT_RETRY_DELAY) < t))"
    by (simp add: held_store_def LOCK_expiry_def DEFAULT_RETRY_COUNT_def DEFAULT_RETRY_DELAY_def)
  from acquireLock_bounded_retry[OF hx] obtain l where
    lx: "sent (snd ?X) = sent held_store @ replicate l ?c"
        "fst ?X = Inr None \<longrightarrow>
           l = DEFAULT_RETRY_COUNT \<and> now (snd ?X) = now held_store + int (l * DEFAULT_RETRY_DELAY)
           \<and> entries (snd ?X) = entries held_store"
        "faults held_store = [] \<and> 0 < LOCK_expiry
           \<and> (\<exists>v0 e. entries held_store ?k = Some (v0, e)
                 \<and> (\<forall>t. e = Some t \<longrightarrow>
                       now held_store + int ((DEFAULT_RETRY_COUNT - 1) * DEFAULT_RETRY_DELAY) < t))
           \<longrightarrow> fst ?X = Inr None"
    by (elim exE conjE) (rule that)
  from lx(3) pre have x0: "fst ?X = Inr None" by (rule mp)
  with lx(2) have x1: "l = DEFAULT_RETRY_COUNT"
    and x2: "now (snd ?X) = now held_store + int (l * DEFAULT_RETRY_DELAY)"
    by simp_all
  from x0 x1 x2 lx(1) have x: "fst ?X = Inr None
           \<and> sent (snd ?X) = replicate 3 (SET_PX_NX ?k ''token-b'' 10000)
           \<and> now (snd ?X) = 600"
    by (simp add: held_store_def LOCK_expiry_def DEFAULT_RETRY_COUNT_def DEFAULT_RETRY_DELAY_def)
  have prey: "faults empty_store = [] \<and> 0 < LOCK_expiry \<and> 0 < DEFAULT_RETRY_COUNT
        \<and> (\<forall>j<0::nat. live (empty_store\<lparr>now := now empty_store + int (j * DEFAULT_RETRY_DELAY)\<rparr>) ?k
                          \<noteq> None)
        \<and> live (empty_store\<lparr>now := now empty_store + int (0 * DEFAULT_RETRY_DELAY)\<rparr>) ?k = None"
    by (simp add: empty_store_def LOCK_expiry_def DEFAULT_RETRY_COUNT_def live_def)
  from acquireLock_bounded_retry[OF hy] obtain n where
    ny: "sent (snd ?Y) = sent empty_store @ replicate n ?c"
        "\<forall>t. fst ?Y = Inr (Some t) \<longrightarrow>
             t = ''token-b'' \<and> 0 < n
             \<and> now (snd ?Y) = now empty_store + int ((n - 1) * DEFAULT_RETRY_DELAY)
             \<and> entries (snd ?Y) = (entries empty_store)(?k \<mapsto> (''token-b'', Some (now (snd ?Y) + int LOCK_expiry)))"
        "\<forall>n0. faults empty_store = [] \<and> 0 < LOCK_expiry \<and> n0 < DEFAULT_RETRY_COUNT
              \<and> (\<forall>j<n0. live (empty_store\<lparr>now := now empty_store + int (j * DEFAULT_RETRY_DELAY)\<rparr>) ?k
                           \<noteq> None)
              \<and> live (empty_store\<lparr>now := now empty_store + int (n0 * DEFAULT_RETRY_DELAY)\<rparr>) ?k = None
            \<longrightarrow> fst ?Y = Inr (Some ''token-b'') \<and> n = Suc n0"
    by (elim exE conjE) (rule that)
  from ny(3)[rule_format, of 0, OF prey]
  have y0: "fst ?Y = Inr (Some ''token-b'')" and y1: "n = Suc 0" by simp_all
  from ny(2)[rule_format, OF y0]
  have y2: "now (snd ?Y) = now empty_store + int ((n - 1) * DEFAULT_RETRY_DELAY)" by simp
  from y0 y1 y2 ny(1) have y: "fst ?Y = Inr (Some ''token-b'')
           \<and> sent (snd ?Y) = [SET_PX_NX ?k ''token-b'' 10000]
           \<and> now (snd ?Y) = 0"
    by (simp add: empty_store_def LOCK_expiry_def)
  have prez: "faults expiring_store = [] \<and> 0 < LOCK_expiry \<and> 2 < DEFAULT_RETRY_COUNT
        \<and> (\<forall>j<2::nat. live (expiring_store\<lparr>now := now expiring_store + int (j * DEFAULT_RETRY_DELAY)\<rparr>) ?k
                          \<noteq> None)
        \<and> live (expiring_store\<lparr>now := now expiring_store + int (2 * DEFAULT_RETRY_DELAY)\<rparr>) ?k = None"
    by (simp add: expiring_store_def LOCK_expiry_def DEFAULT_RETRY_COUNT_def DEFAULT_RETRY_DELAY_def
                  live_def less_2_cases_iff)
  from acquireLock_bounded_retry[OF hz] obtain m where
    mz: "sent (snd ?Z) = sent expiring_store @ replicate m ?c"
        "\<forall>t. fst ?Z = Inr (Some t) \<longrightarrow>
             t = ''token-b'' \<and> 0 < m
             \<and> now (snd ?Z) = now expiring_store + int ((m - 1) * DEFAULT_RETRY_DELAY)
             \<and> entries (snd ?Z) = (entries expiring_store)(?k \<mapsto> (''token-b'', Some (now (snd ?Z) + int LOCK_expiry)))"
        "\<forall>n0. faults expiring_store = [] \<and> 0 < LOCK_expiry \<and> n0 < DEFAULT_RETRY_COUNT
              \<and> (\<forall>j<n0. live (expiring_store\<lparr>now := now expiring_store + int (j * DEFAULT_RETRY_DELAY)\<rparr>) ?k
                           \<noteq> None)
              \<and> live (expiring_store\<lparr>now := now expiring_store + int (n0 * DEFAULT_RETRY_DELAY)\<rparr>) ?k = None
            \<longrightarrow> fst ?Z = Inr (Some ''token-b'') \<and> m = Suc n0"
    by (elim exE conjE) (rule that)
  from mz(3)[rule_format, of 2, OF prez]
  have z0: "fst ?Z = Inr (Some ''token-b'')" and z1: "m = Suc 2" by simp_all
  from mz(2)[rule_format, OF z0]
  have z2: "now (snd ?Z) = now expiring_store + int ((m - 1) * DEFAULT_RETRY_DELAY)" by simp
  from z0 z1 z2 mz(1) have z: "fst ?Z = Inr (Some ''token-b'')
           \<and> sent (snd ?Z) = replicate 3 (SET_PX_NX ?k ''token-b'' 10000)
           \<and> now (snd ?Z) = 400"
    by (simp add: expiring_store_def LOCK_expiry_def DEFAULT_RETRY_DELAY_def numeral_3_eq_3)
  from x y z show ?thesis by simp
qed

section \<open>The cache\<close>

lemma redis_get_eq:
  "redis_get k r =
     (if reachable r then Inr (live r k) else Inl TransportError,
      r\<lparr>faults := tl (faults r), sent := sent r @ [GET k]\<rparr>)"
  by (simp add: redis_get_def send_eq)

lemma cache_get_eq:
  "cache_get parse key r =
     (Inr (if \<not> reachable r then JNull
           else case live r key of
                  None \<Rightarrow> JNull
                | Some s \<Rightarrow> if s = [] then JNull
                            else (case parse s of None \<Rightarrow> JNull | Some v \<Rightarrow> v)),
      r\<lparr>faults := tl (faults r), sent := sent r @ [GET key]\<rparr>)"
  by (simp add: cache_get_def cache_get_try_def redis_get_eq split: option.splits)

lemma cache_get_state:
  "cache_get parse key r = (got, r1) \<Longrightarrow>
     r1 = r\<lparr>faults := tl (faults r), sent := sent r @ [GET key]\<rparr> \<and> (\<exists>v. got = Inr v)"
  by (auto simp: cache_get_eq)

lemma cache_set_eq:
  "cache_set stringify key v (Some secs) r =
     (Inr (),
      r\<lparr>entries := (if reachable r
                     then (entries r)(key \<mapsto> (stringify v,
                             if secs \<noteq> 0 then Some (now r + 1000 * int secs) else None))
                     else entries r),
        faults := tl (faults r),
        sent := sent r @ [if secs \<noteq> 0 then SET_EX key (stringify v) secs
                          else SET_PLAIN key (stringify v)]\<rparr>)"
  by (auto simp: cache_set_def cache_set_try_def redis_set_ex_def redis_set_plain_def send_eq)

lemma cache_set_never_raises:
  "fst (cache_set stringify key v expiry r) = Inr ()"
  by (simp add: cache_set_def split: prod.splits sum.splits)

lemma cache_set_unreachable:
  "\<not> reachable r \<Longrightarrow> entries (snd (cache_set stringify key v expiry r)) = entries r"
  by (auto simp: cache_set_def cache_set_try_def redis_set_ex_def redis_set_plain_def send_eq
           split: option.splits)

text \<open>
  C7. \<open>get\<close> never raises: a failed round trip to the store (and a stored text that does
  not parse) gives \<open>null\<close>, a miss. \<open>set\<close> never raises either, and a failed round trip
  leaves the entries as they were. An error thrown by the producer on a miss leaves
  \<open>cached\<close> unchanged, as its error.
\<close>

theorem cache_errors_swallowed:
  "(\<exists>v. fst (cache_get parse key r) = Inr v)
   \<and> (\<not> reachable r \<longrightarrow>
        cache_get parse key r
          = (Inr JNull, r\<lparr>faults := tl (faults r), sent := sent r @ [GET key]\<rparr>))
   \<and> fst (cache_set stringify key v expiry r) = Inr ()
   \<and> (\<not> reachable r \<longrightarrow> entries (snd (cache_set stringify key v expiry r)) = entries r)
   \<and> (\<forall>got r1 e w'. cache_get parse key r = (Inr got, r1) \<and> \<not> truthy got
          \<and> func w = (Inl e, w') \<longrightarrow>
        cached parse stringify key ttl func (r, w) = (Inl e, (r1, w')))"
  by (auto simp: cache_get_eq cache_set_never_raises cache_set_unreachable cached_def)

theorem cache_errors_swallowed_witness:
  "\<not> reachable down_store
   \<and> cache_get sample_parse ''k'' down_store
        = (Inr JNull, down_store\<lparr>faults := [True], sent := [GET ''k'']\<rparr>)
   \<and> fst (cache_set sample_stringify ''k'' (JNum 7) (Some 60) down_store) = Inr ()
   \<and> entries (snd (cache_set sample_stringify ''k'' (JNum 7) (Some 60) down_store)) ''k'' = None
   \<and> cached sample_parse sample_stringify ''k'' 60 failing_producer (down_store, 0)
        = (Inl ServiceUnavailable, (down_store\<lparr>faults := [True], sent := [GET ''k'']\<rparr>, 1))"
proof -
  let ?r1 = "down_store\<lparr>faults := [True], sent := [GET ''k'']\<rparr>"
  have a: "\<not> reachable down_store" by (simp add: reachable_def down_store_def)
  have b: "failing_producer 0 = (Inl ServiceUnavailable, 1)" by (simp add: failing_producer_def)
  have d: "tl (faults down_store) = [True]" "sent down_store = []" "entries down_store ''k'' = None"
    by (simp_all add: down_store_def)
  note t = cache_errors_swallowed[of sample_parse "''k''" down_store sample_stringify "JNum 7"
        "Some 60" failing_producer 0 60]
  from t a have g: "cache_get sample_parse ''k'' down_store = (Inr JNull, ?r1)"
    unfolding d by simp
  from t a have s1: "fst (cache_set sample_stringify ''k'' (JNum 7) (Some 60) down_store) = Inr ()"
    and s2: "entries (snd (cache_set sample_stringify ''k'' (JNum 7) (Some 60) down_store))
               = entries down_store"
    by blast+
  from t have "cache_get sample_parse ''k'' down_store = (Inr JNull, ?r1) \<and> \<not> truthy JNull
      \<and> failing_producer 0 = (Inl ServiceUnavailable, 1) \<longrightarrow>
      cached sample_parse sample_stringify ''k'' 60 failing_producer (down_store, 0)
        = (Inl ServiceUnavailable, (?r1, 1))"
    by blast
  with g b have c: "cached sample_parse sample_stringify ''k'' 60 failing_producer (down_store, 0)
        = (Inl ServiceUnavailable, (?r1, 1))"
    by simp
  show ?thesis using a g s1 s2 c d(3) by simp
qed

section \<open>Cache-aside\<close>

text \<open>
  On a miss with a producer that yields the number 0, which is a value and not
  \<open>null\<close>, \<open>cached\<close> does not return 0 with the document stored under the key.
\<close>

theorem cached_falsy_counterexample:
  "counting_producer (JNum 0) 0 = (Inr (JNum 0), 1)
   \<and> fst (cache_get sample_parse ''k'' empty_store) = Inr JNull
   \<and> \<not> (fst (cached sample_parse sample_stringify ''k'' 60 (counting_producer (JNum 0))
              (empty_store, 0)) = Inr (JNum 0)
        \<and> live (fst (snd (cached sample_parse sample_stringify ''k'' 60
                            (counting_producer (JNum 0)) (empty_store, 0)))) ''k''
            = Some (sample_stringify (JNum 0)))"
  by (simp add: cached_def cache_get_eq counting_producer_def empty_store_def reachable_def
                live_def)

text \<open>
  C6, amended. Let \<open>get key\<close> yield \<open>got\<close>. If \<open>got\<close> is truthy, \<open>cached\<close> returns it
  and the world of the producer is untouched: the producer is not invoked. Otherwise the
  producer is invoked; if it yields \<open>null\<close> or another falsy value, \<open>cached\<close> returns
  \<open>null\<close> and sends nothing more to the store; if it yields a truthy value, \<open>cached\<close>
  hands it to \<open>set key value ttl\<close> and returns it: one \<open>SET\<close> command is sent, with
  \<open>EX ttl\<close> unless \<open>ttl\<close> is 0; when the command reaches the store the entry under the
  key is the serialized value, expiring \<open>ttl\<close> seconds from now, or never when \<open>ttl\<close>
  is 0; when it does not, the entries are as before.
\<close>

theorem cached_cache_aside:
  assumes "cache_get parse key r = (Inr got, r1)"
  shows "(truthy got \<longrightarrow> cached parse stringify key ttl func (r, w) = (Inr got, (r1, w)))
       \<and> (\<forall>res w1. \<not> truthy got \<and> func w = (Inr res, w1) \<and> \<not> truthy res \<longrightarrow>
            cached parse stringify key ttl func (r, w) = (Inr JNull, (r1, w1)))
       \<and> (\<forall>res w1. \<not> truthy got \<and> func w = (Inr res, w1) \<and> truthy res \<longrightarrow>
            cached parse stringify key ttl func (r, w)
              = (Inr res, (snd (cache_set stringify key res (Some ttl) r1), w1))
            \<and> sent (snd (cache_set stringify key res (Some ttl) r1))
                = sent r1 @ [if ttl \<noteq> 0 then SET_EX key (stringify res) ttl
                             else SET_PLAIN key (stringify res)]
            \<and> (reachable r1 \<longrightarrow>
                 entries (snd (cache_set stringify key res (Some ttl) r1))
                   = (entries r)(key \<mapsto> (stringify res,
                        if ttl \<noteq> 0 then Some (now r + 1000 * int ttl) else None)))
            \<and> (\<not> reachable r1 \<longrightarrow>
                 entries (snd (cache_set stringify key res (Some ttl) r1)) = entries r))
       \<and> entries r1 = entries r \<and> sent r1 = sent r @ [GET key]"
  using assms
  by (auto simp: cached_def cache_get_eq cache_set_eq cache_set_never_raises
           split: prod.splits sum.splits)

theorem cached_cache_aside_witness:
  "cached sample_parse sample_stringify ''k'' 60 (counting_producer (JNum 9)) (seven_store, 0)
     = (Inr (JNum 7), (seven_store\<lparr>sent := [GET ''k'']\<rparr>, 0))
   \<and> cached sample_parse sample_stringify ''k'' 60 (counting_producer JNull) (empty_store, 0)
     = (Inr JNull, (empty_store\<lparr>sent := [GET ''k'']\<rparr>, 1))
   \<and> fst (cached sample_parse sample_stringify ''k'' 60 (counting_producer (JNum 7)) (empty_store, 0))
     = Inr (JNum 7)
   \<and> entries (fst (snd (cached sample_parse sample_stringify ''k'' 60 (counting_producer (JNum 7))
                           (empty_store, 0)))) ''k''
     = Some (''7'', Some 60000)
   \<and> snd (snd (cached sample_parse sample_stringify ''k'' 60 (counting_producer (JNum 7))
                           (empty_store, 0))) = 1
   \<and> entries (fst (snd (cached sample_parse sample_stringify ''k'' 0 (counting_producer (JNum 7))
                           (empty_store, 0)))) ''k''
     = Some (''7'', None)
   \<and> entries (fst (snd (cached sample_parse sample_stringify ''k'' 60 (counting_producer (JNum 7))
                           (down_store, 0)))) ''k''
     = None"
proof -
  let ?e1 = "empty_store\<lparr>sent := [GET ''k'']\<rparr>"
  let ?d1 = "down_store\<lparr>faults := [True], sent := [GET ''k'']\<rparr>"
  have hit: "cache_get sample_parse ''k'' seven_store
               = (Inr (JNum 7), seven_store\<lparr>sent := [GET ''k'']\<rparr>)"
    by (simp add: cache_get_eq seven_store_def reachable_def live_def sample_parse_def)
  have miss: "cache_get sample_parse ''k'' empty_store = (Inr JNull, ?e1)"
    by (simp add: cache_get_eq empty_store_def reachable_def live_def)
  have down: "cache_get sample_parse ''k'' down_store = (Inr JNull, ?d1)"
    by (simp add: cache_get_eq down_store_def reachable_def)
  have p0: "counting_producer JNull 0 = (Inr JNull, 1)"
    and p7: "counting_producer (JNum 7) 0 = (Inr (JNum 7), 1)"
    by (simp_all add: counting_producer_def)
  have ok: "reachable ?e1" "\<not> reachable ?d1"
    by (simp_all add: reachable_def empty_store_def down_store_def)
  from cached_cache_aside[OF hit, of sample_stringify 60 "counting_producer (JNum 9)" 0]
  have a: "cached sample_parse sample_stringify ''k'' 60 (counting_producer (JNum 9)) (seven_store, 0)
     = (Inr (JNum 7), (seven_store\<lparr>sent := [GET ''k'']\<rparr>, 0))"
    by simp
  from cached_cache_aside[OF miss, of sample_stringify 60 "counting_producer JNull" 0] p0
  have b: "cached sample_parse sample_stringify ''k'' 60 (counting_producer JNull) (empty_store, 0)
     = (Inr JNull, (?e1, 1))"
    by simp
  from cached_cache_aside[OF miss, of sample_stringify 60 "counting_producer (JNum 7)" 0] p7 ok(1)
  have c: "cached sample_parse sample_stringify ''k'' 60 (counting_producer (JNum 7)) (empty_store, 0)
              = (Inr (JNum 7), (snd (cache_set sample_stringify ''k'' (JNum 7) (Some 60) ?e1), 1))"
    and d: "entries (snd (cache_set sample_stringify ''k'' (JNum 7) (Some 60) ?e1))
              = (entries empty_store)(''k'' \<mapsto> (sample_stringify (JNum 7), Some (now empty_store + 1000 * int 60)))"
    by simp_all
  from cached_cache_aside[OF miss, of sample_stringify 0 "counting_producer (JNum 7)" 0] p7 ok(1)
  have c0: "cached sample_parse sample_stringify ''k'' 0 (counting_producer (JNum 7)) (empty_store, 0)
              = (Inr (JNum 7), (snd (cache_set sample_stringify ''k'' (JNum 7) (Some 0) ?e1), 1))"
    and d0: "entries (snd (cache_set sample_stringify ''k'' (JNum 7) (Some 0) ?e1))
              = (entries empty_store)(''k'' \<mapsto> (sample_stringify (JNum 7), None))"
    by simp_all
  from cached_cache_aside[OF down, of sample_stringify 60 "counting_producer (JNum 7)" 0] p7 ok(2)
  have cd: "cached sample_parse sample_stringify ''k'' 60 (counting_producer (JNum 7)) (down_store, 0)
              = (Inr (JNum 7), (snd (cache_set sample_stringify ''k'' (JNum 7) (Some 60) ?d1), 1))"
    and dd: "entries (snd (cache_set sample_stringify ''k'' (JNum 7) (Some 60) ?d1))
              = entries down_store"
    by simp_all
  show ?thesis
    unfolding a b c c0 cd using d d0 dd
    by (simp add: sample_stringify_def empty_store_def down_store_def)
qed

text \<open>
  C9. \<open>cached\<close> never returns a falsy value other than \<open>null\<close>. When the producer yields
  a falsy value on a miss, the result is \<open>null\<close> and the only command sent is the
  \<open>GET\<close>: nothing is stored. When the entry under the key parses to a falsy value, the
  call is a miss: the producer is invoked, and its outcome decides the result.
\<close>

theorem cached_falsy_values:
  assumes "cached parse stringify key ttl func (r, w) = (out, (r', w'))"
  shows "(\<forall>v. out = Inr v \<longrightarrow> v = JNull \<or> truthy v)
       \<and> (\<forall>got res. fst (cache_get parse key r) = Inr got \<and> \<not> truthy got
             \<and> fst (func w) = Inr res \<and> \<not> truthy res \<longrightarrow>
            out = Inr JNull \<and> entries r' = entries r \<and> sent r' = sent r @ [GET key]
            \<and> w' = snd (func w))
       \<and> (\<forall>s v. live r key = Some s \<and> parse s = Some v \<and> \<not> truthy v \<longrightarrow>
            w' = snd (func w)
            \<and> (\<forall>e. fst (func w) = Inl e \<longrightarrow> out = Inl e)
            \<and> (\<forall>res. fst (func w) = Inr res \<longrightarrow> out = Inr (if truthy res then res else JNull)))"
  using assms
  by (auto simp: cached_def cache_get_eq cache_set_eq cache_set_never_raises
           split: prod.splits sum.splits if_splits option.splits)

theorem cached_falsy_values_witness:
  "fst (cached sample_parse sample_stringify ''k'' 60 (counting_producer (JNum 0)) (zero_store, 0))
     = Inr JNull
   \<and> snd (snd (cached sample_parse sample_stringify ''k'' 60 (counting_producer (JNum 0))
                  (zero_store, 0))) = 1
   \<and> entries (fst (snd (cached sample_parse sample_stringify ''k'' 60 (counting_producer (JNum 0))
                  (zero_store, 0)))) = entries zero_store
   \<and> sent (fst (snd (cached sample_parse sample_stringify ''k'' 60 (counting_producer (JNum 0))
                  (zero_store, 0)))) = [GET ''k'']
   \<and> snd (snd (cached sample_parse sample_stringify ''k'' 60 (counting_producer (JNum 0))
                  (zero_store\<lparr>sent := [GET ''k'']\<rparr>, 1))) = 2"
proof -
  let ?c = "cached sample_parse sample_stringify ''k'' 60 (counting_producer (JNum 0))"
  let ?z1 = "zero_store\<lparr>sent := [GET ''k'']\<rparr>"
  have h1: "?c (zero_store, 0)
              = (fst (?c (zero_store, 0)),
                 (fst (snd (?c (zero_store, 0))), snd (snd (?c (zero_store, 0)))))"
    by simp
  have h2: "?c (?z1, 1) = (fst (?c (?z1, 1)), (fst (snd (?c (?z1, 1))), snd (snd (?c (?z1, 1)))))"
    by simp
  have g: "fst (cache_get sample_parse ''k'' zero_store) = Inr (JNum 0) \<and> \<not> truthy (JNum 0)"
    by (simp add: cache_get_eq zero_store_def reachable_def live_def sample_parse_def)
  have p: "fst (counting_producer (JNum 0) 0) = Inr (JNum 0)" "snd (counting_producer (JNum 0) 0) = 1"
    "snd (counting_producer (JNum 0) 1) = 2"
    by (simp_all add: counting_producer_def)
  have l: "live zero_store ''k'' = Some ''0'' \<and> sample_parse ''0'' = Some (JNum 0)"
    "live ?z1 ''k'' = Some ''0''"
    by (simp_all add: zero_store_def live_def sample_parse_def)
  have s: "sent zero_store = []" by (simp add: zero_store_def)
  from cached_falsy_values[OF h1] g p(1)
  have a: "fst (?c (zero_store, 0)) = Inr JNull
           \<and> entries (fst (snd (?c (zero_store, 0)))) = entries zero_store
           \<and> sent (fst (snd (?c (zero_store, 0)))) = sent zero_store @ [GET ''k'']
           \<and> snd (snd (?c (zero_store, 0))) = snd (counting_producer (JNum 0) 0)"
    by (metis truthy.simps(3))
  from cached_falsy_values[OF h2] l
  have b: "snd (snd (?c (?z1, 1))) = snd (counting_producer (JNum 0) 1)"
    by (metis truthy.simps(3))
  show ?thesis using a b p s by simp
qed

section \<open>Currency conversion\<close>

lemma par_conversion:
  "jsMul (jsDiv (Num 1) (Num 49)) (Num 49) = Num (9007199254740991 / 9007199254740992)"
  by code_simp

lemma usd_conversion: "jsMul (jsDiv (Num 10) (Num 1)) (Num 83) = Num 830"
  by code_simp

text \<open>
  C5. An amount in the reference currency comes back unchanged, with the store and the
  provider untouched: the rate table is not fetched. For another currency, when
  \<open>getCurrencyRates\<close> yields the table \<open>tbl\<close>, the result is
  \<open>amount / tbl[currency] * tbl[INR]\<close> as the language computes it, in double precision:
  a missing entry is \<open>NaN\<close>, a zero divisor gives \<open>NaN\<close> or an infinity, and
  otherwise the quotient is rounded to the nearest double, multiplied, and the product
  rounded again. (So 1 unit at a rate of 49 for both currencies gives the double just
  below 1.)
\<close>

theorem convertToINR_formula:
  "convertToINR parse stringify amt Currency_INR st = (Inr (Num amt), st)
   \<and> (\<forall>tbl st'. cur \<noteq> Currency_INR
          \<and> getCurrencyRates parse stringify st = (Inr (JObj tbl), st') \<longrightarrow>
        convertToINR parse stringify amt cur st
          = (Inr (jsMul (jsDiv (Num amt) (toNumber (map_of tbl cur)))
                        (toNumber (map_of tbl ''INR''))), st')
        \<and> (\<forall>c i q. map_of tbl cur = Some c \<and> c \<noteq> 0 \<and> map_of tbl ''INR'' = Some i
                  \<and> round64 (amt / c) = Num q \<longrightarrow>
              convertToINR parse stringify amt cur st = (Inr (round64 (q * i)), st')))"
  by (simp add: convertToINR_def)

theorem convertToINR_formula_witness:
  "convertToINR sample_parse sample_stringify 10 ''INR'' (empty_store, silent_provider)
     = (Inr (Num 10), (empty_store, silent_provider))
   \<and> convertToINR sample_parse sample_stringify 10 ''USD'' (rates_store, silent_provider)
     = (Inr (Num 830),
        (rates_store\<lparr>sent := [GET CURRENCY_RATES_key]\<rparr>, silent_provider))
   \<and> fst (convertToINR sample_parse sample_stringify 1 ''USD'' (empty_store, par_provider))
     = Inr (Num (9007199254740991 / 9007199254740992))"
proof -
  let ?st' = "(rates_store\<lparr>sent := [GET CURRENCY_RATES_key]\<rparr>, silent_provider)"
  let ?par = "[(''INR'', 49::real), (''USD'', 49)]"
  have g: "getCurrencyRates sample_parse sample_stringify (rates_store, silent_provider)
             = (Inr (JObj [(''INR'', 83), (''USD'', 1)]), ?st')"
    by (simp add: getCurrencyRates_def cached_def cache_get_eq rates_store_def reachable_def
                  live_def sample_parse_def)
  obtain st2 where g2: "getCurrencyRates sample_parse sample_stringify (empty_store, par_provider)
             = (Inr (JObj ?par), st2)"
    by (simp add: getCurrencyRates_def cached_def cache_get_eq cache_set_eq empty_store_def
                  reachable_def live_def fetchRates_def axios_get_def par_provider_def
             split: prod.splits)
  have n: "''USD'' \<noteq> Currency_INR" "Currency_INR = ''INR''" by (simp_all add: Currency_INR_def)
  have m: "toNumber (map_of [(''INR'', 83), (''USD'', 1)] ''USD'') = Num 1"
    "toNumber (map_of [(''INR'', 83), (''USD'', 1)] ''INR'') = Num 83"
    "toNumber (map_of ?par ''USD'') = Num 49" "toNumber (map_of ?par ''INR'') = Num 49"
    by simp_all
  note t = convertToINR_formula[of sample_parse sample_stringify 10 "(empty_store, silent_provider)" "''USD''"]
    convertToINR_formula[of sample_parse sample_stringify 10 "(rates_store, silent_provider)" "''USD''"]
    convertToINR_formula[of sample_parse sample_stringify 1 "(empty_store, par_provider)" "''USD''"]
  from t(1) have a: "convertToINR sample_parse sample_stringify 10 ''INR'' (empty_store, silent_provider)
     = (Inr (Num 10), (empty_store, silent_provider))"
    unfolding n(2) by blast
  from t(2) n(1) g have "convertToINR sample_parse sample_stringify 10 ''USD'' (rates_store, silent_provider)
     = (Inr (jsMul (jsDiv (Num 10) (toNumber (map_of [(''INR'', 83), (''USD'', 1)] ''USD'')))
                   (toNumber (map_of [(''INR'', 83), (''USD'', 1)] ''INR''))), ?st')"
    by blast
  then have b: "convertToINR sample_parse sample_stringify 10 ''USD'' (rates_store, silent_provider)
     = (Inr (Num 830), ?st')"
    unfolding m usd_conversion .
  from t(3) n(1) g2 have "convertToINR sample_parse sample_stringify 1 ''USD'' (empty_store, par_provider)
     = (Inr (jsMul (jsDiv (Num 1) (toNumber (map_of ?par ''USD'')))
                   (toNumber (map_of ?par ''INR''))), st2)"
    by blast
  then have c: "fst (convertToINR sample_parse sample_stringify 1 ''USD'' (empty_store, par_provider))
     = Inr (Num (9007199254740991 / 9007199254740992))"
    unfolding m par_conversion by simp
  from a b c show ?thesis by simp
qed

section \<open>Creating a transaction\<close>

lemma releaseLock_eq:
  "releaseLock key token r =
     (if reachable r then Inr (live r (LOCK_key key) = Some token) else Inl TransportError,
      r\<lparr>entries := (if reachable r \<and> live r (LOCK_key key) = Some token
                     then (entries r)(LOCK_key key := None) else entries r),
        faults := tl (faults r),
        sent := sent r @ [EVAL_RELEASE (LOCK_key key) token]\<rparr>)"
  by (simp add: releaseLock_def redis_eval_release_def send_eq)

lemma acquire_free:
  "faults r = [] \<Longrightarrow> live r (LOCK_key key) = None \<Longrightarrow>
   acquireLock key token LOCK_expiry DEFAULT_RETRY_COUNT r =
     (Inr (Some token),
      r\<lparr>faults := [], sent := sent r @ [SET_PX_NX (LOCK_key key) token 10000]\<rparr>
       \<lparr>entries := (entries r)(LOCK_key key \<mapsto> (token, Some (now r + 10000)))\<rparr>)"
  by (simp add: acquireLock_def loop_unfold set_px_nx_eq reachable_def LOCK_expiry_def
                DEFAULT_RETRY_COUNT_def)

lemma locked_sys_eq:
  "locked_sys =
     idle_sys\<lparr>kv := \<lparr>entries = [LOCK_key ''transaction:s1'' \<mapsto> (''token-b'', Some 10000)],
                     now = 0, faults = [], sent = [SET_PX_NX (LOCK_key ''transaction:s1'') ''token-b'' 10000]\<rparr>\<rparr>"
  by (simp add: locked_sys_def idle_sys_def acquire_free live_def)

lemma try_eq:
  "createTransaction_try parse stringify ''s1'' alice inr_credit s
     = (Inr (credit_doc\<lparr>createdAt := now (kv s)\<rparr>),
        s\<lparr>db := (db s)\<lparr>inflight := inflight (db s) @ [credit_doc\<lparr>createdAt := now (kv s)\<rparr>]\<rparr>\<rparr>)"
  by (simp add: createTransaction_try_def convertToINR_def Currency_INR_def inr_credit_def
                credit_doc_def alice_def repository_create_def Let_def)

lemma createTransaction_locked:
  assumes "user_storeId u = Some sid"
      and "acquireLock (''transaction:'' @ sid) token LOCK_expiry DEFAULT_RETRY_COUNT (kv s)
             = (Inr (Some token), r1)"
      and "token \<noteq> []"
      and "createTransaction_try parse stringify sid u dto (s\<lparr>kv := r1\<rparr>) = (outcome, s2)"
      and "releaseLock (''transaction:'' @ sid) token (kv s2) = (released, r3)"
  shows "createTransaction parse stringify token u dto s =
           (case released of
              Inl e \<Rightarrow> (Inl e, s2\<lparr>kv := r3\<rparr>)
            | Inr b \<Rightarrow>
                (case outcome of
                   Inl e \<Rightarrow> (Inl e, s2\<lparr>kv := r3\<rparr>)
                 | Inr item \<Rightarrow>
                     (fst (settle_create item (db s2)),
                      s2\<lparr>kv := r3, db := snd (settle_create item (db s2))\<rparr>)))"
  using assms
  by (simp add: createTransaction_def Let_def split: prod.splits sum.splits)

lemma pending_sys_eq:
  "pending_sys = locked_sys\<lparr>db := \<lparr>docs = [], inflight = [credit_doc], mfaults = []\<rparr>\<rparr>"
  by (simp add: pending_sys_def try_eq) (simp add: locked_sys_eq idle_sys_def credit_doc_def)

text \<open>
  C3. In the scenario of a successful request, \<open>acquireLock\<close> gives the token, and the
  \<open>try\<close> block is left with the insert of the document issued and not settled: the
  document is in flight and not stored, and the lock is held. That is the state in which
  the \<open>finally\<close> block runs \<open>releaseLock\<close>: the script is sent and frees the lock
  while the insert is still in flight, so that a second caller acquires the lock of the
  same store before the first document is stored. \<open>createTransaction\<close> is these steps
  followed by the settling of the insert: it returns the document, stored by then, having
  sent the release script last. When the database rejects the insert, the result is the
  persistence error with nothing stored, the release script having been sent all the
  same.
\<close>

theorem createTransaction_releases_before_persistence:
  "fst (acquireLock ''transaction:s1'' ''token-b'' LOCK_expiry DEFAULT_RETRY_COUNT (kv idle_sys))
     = Inr (Some ''token-b'')
   \<and> fst (createTransaction_try sample_parse sample_stringify ''s1'' alice inr_credit locked_sys)
       = Inr credit_doc
   \<and> docs (db pending_sys) = [] \<and> inflight (db pending_sys) = [credit_doc]
   \<and> live (kv pending_sys) (LOCK_key ''transaction:s1'') = Some ''token-b''
   \<and> fst (releaseLock ''transaction:s1'' ''token-b'' (kv pending_sys)) = Inr True
   \<and> sent (kv released_sys)
       = [SET_PX_NX (LOCK_key ''transaction:s1'') ''token-b'' 10000,
          EVAL_RELEASE (LOCK_key ''transaction:s1'') ''token-b'']
   \<and> live (kv released_sys) (LOCK_key ''transaction:s1'') = None
   \<and> docs (db released_sys) = [] \<and> inflight (db released_sys) = [credit_doc]
   \<and> fst (acquireLock ''transaction:s1'' ''token-c'' LOCK_expiry DEFAULT_RETRY_COUNT
             (kv released_sys)) = Inr (Some ''token-c'')
   \<and> createTransaction sample_parse sample_stringify ''token-b'' alice inr_credit idle_sys
       = (fst (settle_create credit_doc (db released_sys)),
          released_sys\<lparr>db := snd (settle_create credit_doc (db released_sys))\<rparr>)
   \<and> settle_create credit_doc (db released_sys)
       = (Inr credit_doc, \<lparr>docs = [credit_doc], inflight = [], mfaults = []\<rparr>)
   \<and> fst (createTransaction sample_parse sample_stringify ''token-b'' alice inr_credit db_down_sys)
       = Inl PersistenceError
   \<and> docs (db (snd (createTransaction sample_parse sample_stringify ''token-b'' alice inr_credit
                       db_down_sys))) = []
   \<and> sent (kv (snd (createTransaction sample_parse sample_stringify ''token-b'' alice inr_credit
                       db_down_sys)))
       = [SET_PX_NX (LOCK_key ''transaction:s1'') ''token-b'' 10000,
          EVAL_RELEASE (LOCK_key ''transaction:s1'') ''token-b'']"
proof -
  let ?k = "LOCK_key ''transaction:s1''"
  let ?r1 = "\<lparr>entries = [?k \<mapsto> (''token-b'', Some 10000)], now = 0, faults = [],
              sent = [SET_PX_NX ?k ''token-b'' 10000]\<rparr>"
  let ?r3 = "\<lparr>entries = Map.empty, now = 0, faults = [],
              sent = [SET_PX_NX ?k ''token-b'' 10000, EVAL_RELEASE ?k ''token-b'']\<rparr>"
  have acq: "acquireLock ''transaction:s1'' ''token-b'' LOCK_expiry DEFAULT_RETRY_COUNT (kv idle_sys)
               = (Inr (Some ''token-b''), ?r1)"
    by (simp add: idle_sys_def acquire_free live_def)
  have acq': "acquireLock (''transaction:'' @ ''s1'') ''token-b'' LOCK_expiry DEFAULT_RETRY_COUNT
                (kv idle_sys) = (Inr (Some ''token-b''), ?r1)"
    "acquireLock (''transaction:'' @ ''s1'') ''token-b'' LOCK_expiry DEFAULT_RETRY_COUNT
                (kv db_down_sys) = (Inr (Some ''token-b''), ?r1)"
    by (simp_all add: db_down_sys_def idle_sys_def acquire_free live_def)
  have sid: "user_storeId alice = Some ''s1''" and tok: "''token-b'' \<noteq> []"
    by (simp_all add: alice_def)
  have tr: "createTransaction_try sample_parse sample_stringify ''s1'' alice inr_credit locked_sys
              = (Inr credit_doc, pending_sys)"
    by (simp add: pending_sys_eq try_eq) (simp add: locked_sys_eq idle_sys_def credit_doc_def)
  then have tr': "createTransaction_try sample_parse sample_stringify ''s1'' alice inr_credit
                    (idle_sys\<lparr>kv := ?r1\<rparr>) = (Inr credit_doc, pending_sys)"
    by (simp add: locked_sys_eq)
  let ?p2 = "db_down_sys\<lparr>kv := ?r1, db := \<lparr>docs = [], inflight = [credit_doc], mfaults = [True]\<rparr>\<rparr>"
  have tr2: "createTransaction_try sample_parse sample_stringify ''s1'' alice inr_credit
                    (db_down_sys\<lparr>kv := ?r1\<rparr>) = (Inr credit_doc, ?p2)"
    by (simp add: try_eq) (simp add: db_down_sys_def idle_sys_def credit_doc_def)
  have pend: "kv pending_sys = ?r1" "db pending_sys = \<lparr>docs = [], inflight = [credit_doc], mfaults = []\<rparr>"
    by (simp_all add: pending_sys_eq locked_sys_eq idle_sys_def)
  have rel: "releaseLock ''transaction:s1'' ''token-b'' ?r1 = (Inr True, ?r3)"
    by (simp add: releaseLock_eq reachable_def live_def)
  have rel': "releaseLock (''transaction:'' @ ''s1'') ''token-b'' (kv pending_sys) = (Inr True, ?r3)"
    "releaseLock (''transaction:'' @ ''s1'') ''token-b'' (kv ?p2) = (Inr True, ?r3)"
    using rel by (simp_all add: pend)
  have rs: "kv released_sys = ?r3" "db released_sys = \<lparr>docs = [], inflight = [credit_doc], mfaults = []\<rparr>"
    "released_sys = pending_sys\<lparr>kv := ?r3\<rparr>"
    by (simp_all add: released_sys_def pend rel)
  have again: "fst (acquireLock ''transaction:s1'' ''token-c'' LOCK_expiry DEFAULT_RETRY_COUNT
                      (kv released_sys)) = Inr (Some ''token-c'')"
    by (simp add: rs(1) acquire_free live_def)
  have settle: "settle_create credit_doc (db released_sys)
       = (Inr credit_doc, \<lparr>docs = [credit_doc], inflight = [], mfaults = []\<rparr>)"
    by (simp add: rs(2) settle_create_def db_call_def credit_doc_def)
  have run: "createTransaction sample_parse sample_stringify ''token-b'' alice inr_credit idle_sys
       = (fst (settle_create credit_doc (db released_sys)),
          released_sys\<lparr>db := snd (settle_create credit_doc (db released_sys))\<rparr>)"
    using createTransaction_locked[OF sid acq'(1) tok tr' rel'(1)]
    by (simp add: rs(3) pend(2))
  have run2: "createTransaction sample_parse sample_stringify ''token-b'' alice inr_credit db_down_sys
       = (Inl PersistenceError, ?p2\<lparr>kv := ?r3, db := \<lparr>docs = [], inflight = [], mfaults = []\<rparr>\<rparr>)"
    using createTransaction_locked[OF sid acq'(2) tok tr2 rel'(2)]
    by (simp add: settle_create_def db_call_def credit_doc_def)
  have a: "fst (acquireLock ''transaction:s1'' ''token-b'' LOCK_expiry DEFAULT_RETRY_COUNT (kv idle_sys))
     = Inr (Some ''token-b'')"
    using acq'(1) by simp
  have b: "live (kv pending_sys) ?k = Some ''token-b''"
    "live (kv released_sys) ?k = None"
    by (simp_all add: pend(1) rs(1) live_def)
  have c: "fst (releaseLock ''transaction:s1'' ''token-b'' (kv pending_sys)) = Inr True"
    by (simp add: pend(1) rel)
  show ?thesis
    unfolding run2 using a tr b c again run settle by (simp add: pend(2) rs(1,2))
qed

section \<open>Date arithmetic\<close>



































section \<open>The report pipeline\<close>

lemma aggregate_eq:
  "repository_aggregate pipeline m =
     (if mfaults m \<noteq> [] \<and> hd (mfaults m) then Inl PersistenceError else Inr (pipeline (docs m)),
      m\<lparr>mfaults := tl (mfaults m)\<rparr>)"
  by (cases "mfaults m") (auto simp: repository_aggregate_def db_call_def)

lemma generateReport_Inr:
  assumes "generateReport z sid duration startD groupByArg m = (Inr rep, m')"
  shows "startDate rep = startD"
    and "endDate rep = (case duration of
                          Week \<Rightarrow> setDate z startD (getDate z startD + 7)
                        | Month \<Rightarrow> setMonth z startD (getMonth z startD + 1))"
    and "buckets rep = reportPipeline sid startD (endDate rep)
                         (case groupByArg of None \<Rightarrow> DayOfWeek | Some g \<Rightarrow> g) (docs m)"
    and "report_summary rep =
           (case summaryPipeline sid startD (endDate rep) (docs m) of
              [] \<Rightarrow> \<lparr>totalCredit = Num 0, totalDebit = Num 0, transactionCount = 0,
                      netFlow = Some (Num 0)\<rparr>
            | s # rest \<Rightarrow> s)"
    and "docs m' = docs m"
  using assms
  by (auto simp: generateReport_def calculateSummary_def aggregate_eq Let_def
           split: if_splits list.splits)

lemma bucket_ids:
  "map bucket_id (groupByPeriod rows) = remdups (map (\<lambda>(k, total, n). fst k) rows)"
  by (simp add: groupByPeriod_def comp_def)

lemma sortStage_sorted:
  assumes "distinct (map bucket_id bs)"
  shows "sorted_wrt (>) (map bucket_id (sortStage bs))"
proof -
  let ?l = "sort_key bucket_id bs"
  have "distinct (map bucket_id ?l)"
    using assms by (simp add: distinct_map)
  then have "sorted_wrt (<) (map bucket_id ?l)"
    by (simp add: strict_sorted_iff)
  then have "sorted_wrt (\<lambda>x y. y < x) (rev (map bucket_id ?l))"
    by (simp add: sorted_wrt_rev)
  then show ?thesis
    by (simp add: sortStage_def rev_map)
qed

lemma pipeline_sorted:
  "sorted_wrt (>) (map bucket_id (reportPipeline sid startD endD g ds))"
  unfolding reportPipeline_def
  by (rule sortStage_sorted) (simp add: bucket_ids)

lemma pipeline_set:
  "set (reportPipeline sid startD endD g ds)
     = set (groupByPeriod (groupByPeriodAndType g (matchStage sid startD endD ds)))"
  by (simp add: reportPipeline_def sortStage_def)


lemma pipeline_keys:
  "bucket_id ` set (reportPipeline sid startD endD g ds)
     = (\<lambda>t. timePeriod g (createdAt t)) ` set (matchStage sid startD endD ds)"
proof -
  let ?ms = "matchStage sid startD endD ds"
  have "bucket_id ` set (reportPipeline sid startD endD g ds)
          = set (map bucket_id (groupByPeriod (groupByPeriodAndType g ?ms)))"
    by (simp add: pipeline_set)
  also have "\<dots> = (\<lambda>t. timePeriod g (createdAt t)) ` set ?ms"
    by (force simp: bucket_ids groupByPeriodAndType_def groupKey_def image_iff)
  finally show ?thesis .
qed



lemma matchStage_set:
  "set (matchStage sid startD endD ds)
     = {t \<in> set ds. storeId t = sid \<and> startD \<le> createdAt t \<and> createdAt t < endD}"
  by (auto simp: matchStage_def)



section \<open>Reports\<close>

text \<open>
  C1. In the scenario of a credit of 100 and a debit of 40 in the week from 2024-01-01,
  \<open>generateReport\<close> returns the two buckets (Wednesday, then Monday) and a summary with
  \<open>totalCredit\<close> 100, \<open>totalDebit\<close> 40 and \<open>transactionCount\<close> 2 that has no field
  \<open>netFlow\<close>: the grouping stage of \<open>calculateSummary\<close> does not compute one, and only
  the summary of an empty range carries it.
\<close>

theorem generateReport_summary_scenario:
  "generateReport utc_zone ''S'' Week 1704067200000 (Some DayOfWeek) week_db
     = (Inr \<lparr>startDate = 1704067200000, endDate = 1704672000000,
             buckets =
               [\<lparr>bucket_id = 4,
                  transactions = [\<lparr>row_type = DEBIT, totalAmount = Num 40, row_count = 1\<rparr>]\<rparr>,
                \<lparr>bucket_id = 2,
                  transactions = [\<lparr>row_type = CREDIT, totalAmount = Num 100, row_count = 1\<rparr>]\<rparr>],
             report_summary =
               \<lparr>totalCredit = Num 100, totalDebit = Num 40, transactionCount = 2,
                netFlow = None\<rparr>\<rparr>,
        week_db)"
  by code_simp




lemma WeekDay_range: "0 \<le> WeekDay t \<and> WeekDay t \<le> 6"
  by (simp add: WeekDay_def)

lemma generateReport_default:
  "generateReport z sid duration startD None m
     = generateReport z sid duration startD (Some DayOfWeek) m"
  by (simp add: generateReport_def)

text \<open>
  C10. Neither report endpoint passes a \<open>groupBy\<close> argument, so both run
  \<open>generateReport\<close> grouped by day of week. Every bucket of a report they return has a
  key from 1 (Sunday) to 7 (Saturday), no two buckets share a key, and the keys are the
  days of the week of the store's documents in the range: in a monthly report all the
  Mondays are one bucket.
\<close>

theorem report_endpoints_day_of_week:
  "getWeeklyReport z clock u date m
     = (case user_storeId u of
          None \<Rightarrow> (Inl TypeError, m)
        | Some sid \<Rightarrow>
            generateReport z sid Week (case date of None \<Rightarrow> clock | Some d \<Rightarrow> d)
              (Some DayOfWeek) m)
   \<and> getMonthlyReport z clock u date m
     = (case user_storeId u of
          None \<Rightarrow> (Inl TypeError, m)
        | Some sid \<Rightarrow>
            generateReport z sid Month (case date of None \<Rightarrow> clock | Some d \<Rightarrow> d)
              (Some DayOfWeek) m)
   \<and> (\<forall>rep m'. getWeeklyReport z clock u date m = (Inr rep, m')
                 \<or> getMonthlyReport z clock u date m = (Inr rep, m') \<longrightarrow>
        (\<forall>b \<in> set (buckets rep). 1 \<le> bucket_id b \<and> bucket_id b \<le> 7)
        \<and> distinct (map bucket_id (buckets rep))
        \<and> bucket_id ` set (buckets rep)
            = (\<lambda>t. WeekDay (createdAt t) + 1)
                ` {t \<in> set (docs m). Some (storeId t) = user_storeId u
                      \<and> startDate rep \<le> createdAt t \<and> createdAt t < endDate rep})"
proof -
  have wk: "getWeeklyReport z clock u date m
     = (case user_storeId u of
          None \<Rightarrow> (Inl TypeError, m)
        | Some sid \<Rightarrow>
            generateReport z sid Week (case date of None \<Rightarrow> clock | Some d \<Rightarrow> d)
              (Some DayOfWeek) m)"
    by (simp add: getWeeklyReport_def generateReport_default split: option.splits)
  have mo: "getMonthlyReport z clock u date m
     = (case user_storeId u of
          None \<Rightarrow> (Inl TypeError, m)
        | Some sid \<Rightarrow>
            generateReport z sid Month (case date of None \<Rightarrow> clock | Some d \<Rightarrow> d)
              (Some DayOfWeek) m)"
    by (simp add: getMonthlyReport_def generateReport_default split: option.splits)
  have main: "(\<forall>b \<in> set (buckets rep). 1 \<le> bucket_id b \<and> bucket_id b \<le> 7)
        \<and> distinct (map bucket_id (buckets rep))
        \<and> bucket_id ` set (buckets rep)
            = (\<lambda>t. WeekDay (createdAt t) + 1)
                ` {t \<in> set (docs m). Some (storeId t) = user_storeId u
                      \<and> startDate rep \<le> createdAt t \<and> createdAt t < endDate rep}"
    if "getWeeklyReport z clock u date m = (Inr rep, m')
        \<or> getMonthlyReport z clock u date m = (Inr rep, m')" for rep m'
  proof -
    from that obtain sid duration where sid: "user_storeId u = Some sid"
      and g: "generateReport z sid duration (case date of None \<Rightarrow> clock | Some d \<Rightarrow> d)
                (Some DayOfWeek) m = (Inr rep, m')"
      unfolding wk mo by (auto split: option.splits)
    note r = generateReport_Inr[OF g]
    have keys: "bucket_id ` set (buckets rep)
            = (\<lambda>t. WeekDay (createdAt t) + 1)
                ` {t \<in> set (docs m). Some (storeId t) = user_storeId u
                      \<and> startDate rep \<le> createdAt t \<and> createdAt t < endDate rep}"
      using pipeline_keys[of sid "startDate rep" "endDate rep" DayOfWeek "docs m"] r(1,3) sid
      by (auto simp: matchStage_set timePeriod_def)
    have "sorted_wrt (>) (map bucket_id (buckets rep))"
      using r(3) pipeline_sorted[of sid "startDate rep" "endDate rep" DayOfWeek "docs m"] r(1)
      by simp
    then have "sorted_wrt (<) (rev (map bucket_id (buckets rep)))"
      by (simp add: sorted_wrt_rev)
    then have dist: "distinct (map bucket_id (buckets rep))"
      by (simp add: strict_sorted_iff)
    have range: "1 \<le> bucket_id b \<and> bucket_id b \<le> 7" if "b \<in> set (buckets rep)" for b
    proof -
      from that have "bucket_id b \<in> bucket_id ` set (buckets rep)" by (rule imageI)
      then obtain t :: transaction where "bucket_id b = WeekDay (createdAt t) + 1"
        unfolding keys by auto
      with WeekDay_range[of "createdAt t"] show ?thesis by simp
    qed
    from range dist keys show ?thesis by blast
  qed
  from wk mo main show ?thesis by blast
qed

theorem report_endpoints_day_of_week_witness:
  "getMonthlyReport utc_zone 0 store_user (Some 1704067200000) month_db = (Inr month_report, month_db)
   \<and> map bucket_id (buckets month_report) = [4, 2]
   \<and> distinct (map bucket_id (buckets month_report))
   \<and> WeekDay (createdAt credit_monday) + 1 = 2
   \<and> WeekDay (createdAt credit_next_monday) + 1 = 2"
proof -
  have m: "getMonthlyReport utc_zone 0 store_user (Some 1704067200000) month_db
             = (Inr month_report, month_db)"
    by code_simp
  have k: "map bucket_id (buckets month_report) = [4, 2]"
    "WeekDay (createdAt credit_monday) + 1 = 2"
    "WeekDay (createdAt credit_next_monday) + 1 = 2"
    by code_simp+
  from report_endpoints_day_of_week[of utc_zone 0 store_user "Some 1704067200000" month_db] m
  have "(\<forall>b \<in> set (buckets month_report). 1 \<le> bucket_id b \<and> bucket_id b \<le> 7)
        \<and> distinct (map bucket_id (buckets month_report))"
    by blast
  with m k show ?thesis by simp
qed

end
